theory Spec2Isabelle
  imports Complex_Main "HOL-Library.Multiset" "HOL-Library.Sublist"
begin

section \<open>WordMatch: the name similarity scorer\<close>

text \<open>
  Python strings are modelled as \<^typ>\<open>string\<close>, one element for each character. Scores are
  Python floats in the source; the model computes them as rationals. A score is \<open>1 - d / n\<close>
  for naturals \<open>d \<le> n\<close>, and it is only ever compared with the constant \<open>0.85\<close>; in floating
  point \<open>1 - 3 / 20\<close> is the float \<open>0.85\<close> itself, so at the boundary the float comparison
  gives what the exact one gives.
\<close>

definition min3 :: "nat \<Rightarrow> nat \<Rightarrow> nat \<Rightarrow> nat" where
  "min3 a b c = min a (min b c)"

text \<open>The inner \<open>for j, c2 in enumerate(s2)\<close> loop, appending to \<open>current_row\<close>.\<close>

fun current_row_loop :: "char \<Rightarrow> nat list \<Rightarrow> (nat \<times> char) list \<Rightarrow> nat list \<Rightarrow> nat list" where
  "current_row_loop c1 previous_row [] current_row = current_row"
| "current_row_loop c1 previous_row ((j, c2) # rest) current_row =
     (let insertions = previous_row ! (j + 1) + 1;
          deletions = current_row ! j + 1;
          substitutions = previous_row ! j + (if c1 \<noteq> c2 then 1 else 0)
      in current_row_loop c1 previous_row rest
           (current_row @ [min3 insertions deletions substitutions]))"

text \<open>The outer \<open>for i, c1 in enumerate(s1)\<close> loop, replacing \<open>previous_row\<close>.\<close>

fun previous_row_loop :: "(nat \<times> char) list \<Rightarrow> string \<Rightarrow> nat list \<Rightarrow> nat list" where
  "previous_row_loop [] s2 previous_row = previous_row"
| "previous_row_loop ((i, c1) # rest) s2 previous_row =
     previous_row_loop rest s2 (current_row_loop c1 previous_row (enumerate 0 s2) [i + 1])"

text \<open>The body of \<open>levenshtein_distance\<close> once \<open>len(s1) >= len(s2)\<close> holds.\<close>

definition levenshtein_rows :: "string \<Rightarrow> string \<Rightarrow> nat" where
  "levenshtein_rows s1 s2 =
     (if length s2 = 0 then length s1
      else last (previous_row_loop (enumerate 0 s1) s2 [0 ..< length s2 + 1]))"

definition levenshtein_distance :: "string \<Rightarrow> string \<Rightarrow> nat" where
  "levenshtein_distance s1 s2 =
     (if length s1 < length s2 then levenshtein_rows s2 s1 else levenshtein_rows s1 s2)"

definition similarity_score :: "string \<Rightarrow> string \<Rightarrow> rat" where
  "similarity_score s1 s2 =
     (let lev_distance = levenshtein_distance s1 s2;
          max_len = max (length s1) (length s2)
      in if max_len = 0 then 1 else 1 - of_nat lev_distance / of_nat max_len)"

text \<open>
  \<open>sorted(results_table, key=lambda x: x[1], reverse=True)\<close>: Python's sort is stable, also
  with \<open>reverse=True\<close>, so rows of equal score keep their input order.
\<close>

definition sorted_reverse :: "(string \<times> rat) list \<Rightarrow> (string \<times> rat) list" where
  "sorted_reverse results_table = sort_key (\<lambda>x. - snd x) results_table"

text \<open>
  \<open>compare_word\<close> calls \<open>str.upper\<close> on both words. That method belongs to Python's library
  and follows the Unicode case mapping, which may even change the length of a string; it
  is not part of the program. The model takes it as the parameter \<open>upper\<close>, and nothing
  below depends on what it does to any string.
\<close>

definition compare_word :: "(string \<Rightarrow> string) \<Rightarrow> string \<Rightarrow> string list \<Rightarrow> string \<times> rat" where
  "compare_word upper src_w sol_words =
     (let results_table =
            map (\<lambda>sol_word. (sol_word, similarity_score (upper src_w) (upper sol_word))) sol_words
      in if length results_table = 0 then (src_w, 0) else hd (sorted_reverse results_table))"

text \<open>
  On a string of ASCII characters \<open>str.upper\<close> replaces the letters \<open>a\<close> to \<open>z\<close> by \<open>A\<close> to
  \<open>Z\<close> and leaves the rest. The sample inputs below are such strings.
\<close>

definition ascii_upper_char :: "char \<Rightarrow> char" where
  "ascii_upper_char c =
     (let n = (of_char c :: nat) in if 97 \<le> n \<and> n \<le> 122 then char_of (n - 32) else c)"

definition ascii_upper :: "string \<Rightarrow> string" where
  "ascii_upper s = map ascii_upper_char s"

text \<open>
  The Levenshtein distance by its defining recursion: the least number of deletions,
  insertions and substitutions of single elements, each of cost one, that turn the first
  list into the second. It is not taken from the source; the table that
  \<open>levenshtein_distance\<close> fills row by row is proved to compute it. \<open>cell\<close> and \<open>row\<close>
  name the entries and the rows of that table.
\<close>

fun edit_distance :: "'a list \<Rightarrow> 'a list \<Rightarrow> nat" where
  "edit_distance [] ys = length ys"
| "edit_distance (x # xs) [] = Suc (length xs)"
| "edit_distance (x # xs) (y # ys) =
     min3 (edit_distance xs (y # ys) + 1) (edit_distance (x # xs) ys + 1)
          (edit_distance xs ys + (if x \<noteq> y then 1 else 0))"

definition cell :: "string \<Rightarrow> string \<Rightarrow> nat \<Rightarrow> nat \<Rightarrow> nat" where
  "cell s1 s2 i j = edit_distance (take i s1) (take j s2)"

definition row :: "string \<Rightarrow> string \<Rightarrow> nat \<Rightarrow> nat list" where
  "row s1 s2 i = map (cell s1 s2 i) [0 ..< length s2 + 1]"

section \<open>CDMmodel: the linked schema graph\<close>

text \<open>
  The classes of \<open>CDMmodel.py\<close> after linking: every reference field holds the object it
  refers to. The back references of an entity and of an association (\<open>relationships\<close>,
  \<open>association_links\<close>) and the packages of a model are never read by the validation and
  are left out; they would make the records cyclic. Identifiers and names are strings.
\<close>

record domain =
  d_id :: string
  d_name :: string
  d_code :: string
  d_datatype :: "string option"
  d_length :: "int option"
  d_precision :: "int option"

record attribute =
  a_id :: string
  a_name :: string
  a_code :: string
  mandatory :: bool
  a_datatype :: "string option"
  a_length :: "int option"
  a_precision :: "int option"
  a_domain :: "domain option"

record entity_identifier =
  i_id :: string
  i_name :: string
  identifier_attributes :: "attribute list"
  is_primary :: bool

record entity =
  e_id :: string
  e_name :: string
  e_code :: string
  is_child :: bool
  e_attributes :: "attribute list"
  e_identifiers :: "entity_identifier list"

record relationship =
  r_id :: string
  r_name :: string
  r_code :: string
  is_dependent_e1 :: bool
  is_dependent_e2 :: bool
  entity1 :: entity
  entity2 :: entity
  cardinality_1to2 :: string
  cardinality_2to1 :: string

record association =
  as_id :: string
  as_name :: string
  as_code :: string
  as_attributes :: "attribute list"

record association_link =
  l_id :: string
  l_association :: association
  l_entity :: entity
  l_cardinality :: string

record inheritance =
  h_id :: string
  h_name :: string
  h_code :: string
  mutually_exclusive :: bool
  complete_inh :: bool
  parent :: entity
  children :: "entity list"

record model =
  m_id :: string
  m_name :: string
  m_code :: string
  entities :: "entity list"
  relationships :: "relationship list"
  inheritances :: "inheritance list"
  domains :: "domain list"
  associations :: "association list"
  association_links :: "association_link list"

definition get_table_name_by_id :: "model \<Rightarrow> string \<Rightarrow> string option" where
  "get_table_name_by_id m table_id =
     map_option e_name (find (\<lambda>entity. e_id entity = table_id) (entities m))"

definition get_attributes :: "model \<Rightarrow> string \<Rightarrow> attribute list option" where
  "get_attributes m table_id =
     map_option e_attributes (find (\<lambda>entity. e_id entity = table_id) (entities m))"

definition get_identifiers :: "model \<Rightarrow> string \<Rightarrow> entity_identifier list option" where
  "get_identifiers m table_id =
     map_option e_identifiers (find (\<lambda>entity. e_id entity = table_id) (entities m))"

section \<open>ErrorLog\<close>

text \<open>
  The \<open>name\<close> of an \<open>Error\<close> is a string, \<open>None\<close>, or (for association links) the
  association object itself.
\<close>

datatype name_field = NoName | Name string | AssociationObject association

record error =
  err_type :: string
  err_id :: "string option"
  err_name :: name_field
  err_error :: string
  err_message :: string

definition add_error ::
  "error list \<Rightarrow> string \<Rightarrow> string option \<Rightarrow> name_field \<Rightarrow> string \<Rightarrow> string \<Rightarrow> error list" where
  "add_error errors TypeOfObject object_id name TypeOfError message =
     errors @ [\<lparr>err_type = TypeOfObject, err_id = object_id, err_name = name,
                err_error = TypeOfError, err_message = message\<rparr>]"

fun find_error :: "error list \<Rightarrow> string option \<Rightarrow> error option \<times> bool" where
  "find_error [] object_id = (None, False)"
| "find_error (e # errors) object_id =
     (if err_id e = object_id then (Some e, True) else find_error errors object_id)"

section \<open>Validation\<close>

text \<open>
  A call either returns or raises; the error log is a field of the \<open>Validation\<close> object, so
  what was appended before a raise stays in it. Every function below takes the log (\<open>elog\<close>) and gives
  it back next to its outcome.
\<close>

datatype exn = ValueError | UnboundLocalError | RuntimeError | IndexError | TypeError | KeyError

datatype 'a outcome = Returns 'a | Raises exn

text \<open>
  Two things that a run depends on are decided by the Python interpreter and its library and
  not by the program, and the model takes them as parameters, gathered in one record.

  \<open>str_upper\<close> is \<open>str.upper\<close>, which \<open>compare_word\<close> applies to both words.

  Every unmatched pool of the source is \<open>set(xs)\<close> for a list \<open>xs\<close> of model objects, which
  hash by identity. The order in which such a set is iterated is fixed by the interpreter
  from the addresses of the objects: \<open>entity_set py xs\<close> lists the members of \<open>set(xs)\<close> in
  the order of iteration. A pool is kept as that list; \<open>remove\<close> deletes one member and
  leaves the others in place.
\<close>

record interpreter =
  str_upper :: "string \<Rightarrow> string"
  entity_set :: "entity list \<Rightarrow> entity list"
  attribute_set :: "attribute list \<Rightarrow> attribute list"
  identifier_set :: "entity_identifier list \<Rightarrow> entity_identifier list"
  relationship_set :: "relationship list \<Rightarrow> relationship list"
  inheritance_set :: "inheritance list \<Rightarrow> inheritance list"
  association_set :: "association list \<Rightarrow> association list"
  association_link_set :: "association_link list \<Rightarrow> association_link list"

definition name_match_threshold :: rat where
  "name_match_threshold = 85 / 100"

definition format_optional :: "string option \<Rightarrow> string" where
  "format_optional v = (case v of None \<Rightarrow> ''None'' | Some s \<Rightarrow> s)"

text \<open>
  Where the source calls \<open>add_error\<close> with a record that a theorem below names, the model
  appends the named record; \<open>add_error\<close> does nothing but append.
\<close>

subsection \<open>Attributes of a matched entity pair\<close>

definition validate_attribute ::
  "interpreter \<Rightarrow> string \<Rightarrow> attribute \<Rightarrow> attribute list \<Rightarrow> error list \<Rightarrow> attribute list \<times> error list" where
  "validate_attribute py src_table_id src_attribute unmatched_solution_attributes elog =
     (let (solution_attribute_match_name, score) =
            compare_word (str_upper py) (a_name src_attribute) (map a_name unmatched_solution_attributes)
      in if score > name_match_threshold then
           (case find (\<lambda>attribute. a_name attribute = solution_attribute_match_name)
                   unmatched_solution_attributes of
              Some matching_attribute \<Rightarrow>
                (let unmatched = remove1 matching_attribute unmatched_solution_attributes;
                     elog1 = (if a_datatype src_attribute \<noteq> a_datatype matching_attribute
                             then add_error elog ''Attribute'' (Some src_table_id)
                                    (Name (a_name src_attribute)) ''Error''
                                    (''Attribute '' @ a_name src_attribute @ '' datatype mismatch'')
                             else elog);
                     elog2 = (if mandatory src_attribute \<noteq> mandatory matching_attribute
                             then add_error elog1 ''Attribute'' (Some src_table_id)
                                    (Name (a_name src_attribute)) ''Error''
                                    (''Attribute '' @ a_name src_attribute
                                       @ '' mandatory property mismatch'')
                             else elog1)
                 in (unmatched, elog2))
            | None \<Rightarrow>
                (unmatched_solution_attributes,
                 add_error elog ''Attribute'' (Some src_table_id) NoName ''Error''
                   (''Matching attribute '' @ solution_attribute_match_name
                      @ '' not found in solution model or already matched'')))
         else (unmatched_solution_attributes,
               add_error elog ''Attribute'' (Some src_table_id) (Name (a_name src_attribute))
                 ''Error''
                 (''Attribute '' @ a_name src_attribute @ '' not found in the solution model'')))"

fun attributes_loop ::
  "interpreter \<Rightarrow> string \<Rightarrow> attribute list \<Rightarrow> attribute list \<Rightarrow> error list \<Rightarrow> attribute list \<times> error list" where
  "attributes_loop py src_table_id [] unmatched elog = (unmatched, elog)"
| "attributes_loop py src_table_id (src_attribute # rest) unmatched elog =
     (case validate_attribute py src_table_id src_attribute unmatched elog of
        (unmatched', elog') \<Rightarrow> attributes_loop py src_table_id rest unmatched' elog')"

definition unmatched_attribute_error :: "model \<Rightarrow> string \<Rightarrow> attribute \<Rightarrow> error" where
  "unmatched_attribute_error src_model src_table_id attribute =
     \<lparr>err_type = ''Entity'', err_id = Some src_table_id, err_name = NoName,
      err_error = ''Error'',
      err_message = ''Unmatched attribute in entity ''
        @ format_optional (get_table_name_by_id src_model src_table_id)
        @ '': '' @ a_name attribute\<rparr>"

definition validate_attributes ::
  "interpreter \<Rightarrow> model \<Rightarrow> model \<Rightarrow> string \<Rightarrow> string \<Rightarrow> error list \<Rightarrow> unit outcome \<times> error list" where
  "validate_attributes py src_model solution_model src_table_id solution_table_id elog =
     (case get_attributes solution_model solution_table_id of
        None \<Rightarrow> (Raises TypeError, elog)
      | Some solution_attributes \<Rightarrow>
          (case get_attributes src_model src_table_id of
             None \<Rightarrow> (Raises TypeError, elog)
           | Some src_attributes \<Rightarrow>
               (case attributes_loop py src_table_id src_attributes
                       (attribute_set py solution_attributes) elog of
                  (unmatched, elog') \<Rightarrow>
                    (Returns (),
                     elog' @ map (unmatched_attribute_error src_model src_table_id) unmatched))))"

subsection \<open>Identifiers of a matched entity pair\<close>

definition identifier_attributes_error :: "entity_identifier \<Rightarrow> attribute \<Rightarrow> error" where
  "identifier_attributes_error src_identifier src_attribute =
     \<lparr>err_type = ''Identifier'', err_id = Some (i_id src_identifier),
      err_name = Name (a_name src_attribute), err_error = ''Error'',
      err_message = ''Identifier attributes mismatch in solution model''\<rparr>"

text \<open>
  The first loop of \<open>validate_identifier_attributes\<close>. It yields \<open>Returns True\<close> when it runs
  to its end and \<open>Returns False\<close> when it leaves the function with \<open>(None, False)\<close>;
  \<open>min(scores)\<close> of an empty list raises \<open>ValueError\<close>.
\<close>

fun identifier_attributes_loop ::
  "interpreter \<Rightarrow> entity_identifier \<Rightarrow> attribute list \<Rightarrow> string list list \<Rightarrow> error list
     \<Rightarrow> bool outcome \<times> error list" where
  "identifier_attributes_loop py src_identifier [] solution_identifier_attributes elog =
     (Returns True, elog)"
| "identifier_attributes_loop py src_identifier (src_attribute # rest)
       solution_identifier_attributes elog =
     (let scores = map (\<lambda>sol_attributes. snd (compare_word (str_upper py) (a_name src_attribute) sol_attributes))
                       solution_identifier_attributes
      in if scores = [] then (Raises ValueError, elog)
         else if min_list scores < name_match_threshold then
           (Returns False, elog @ [identifier_attributes_error src_identifier src_attribute])
         else identifier_attributes_loop py src_identifier rest solution_identifier_attributes elog)"

definition match_found :: "interpreter \<Rightarrow> entity_identifier \<Rightarrow> entity_identifier \<Rightarrow> bool" where
  "match_found py src_identifier ident =
     (let sol_attributes = map a_name (identifier_attributes ident)
      in list_all (\<lambda>src_attribute.
                     snd (compare_word (str_upper py) (a_name src_attribute) sol_attributes)
                       \<ge> name_match_threshold)
                  (identifier_attributes src_identifier))"

definition validate_identifier_attributes ::
  "interpreter \<Rightarrow> entity_identifier \<Rightarrow> entity_identifier list \<Rightarrow> error list
     \<Rightarrow> (entity_identifier option \<times> bool) outcome \<times> error list" where
  "validate_identifier_attributes py src_identifier solution_identifiers elog =
     (let solution_identifier_attributes =
            map (\<lambda>ident. map a_name (identifier_attributes ident)) solution_identifiers
      in case identifier_attributes_loop py src_identifier (identifier_attributes src_identifier)
                solution_identifier_attributes elog of
           (Raises e, elog') \<Rightarrow> (Raises e, elog')
         | (Returns completed, elog') \<Rightarrow>
             (if \<not> completed then (Returns (None, False), elog')
              else (case find (match_found py src_identifier) solution_identifiers of
                      Some ident \<Rightarrow> (Returns (Some ident, True), elog')
                    | None \<Rightarrow> (Returns (None, False), elog'))))"

definition identifier_primary_error :: "model \<Rightarrow> string \<Rightarrow> entity_identifier \<Rightarrow> error" where
  "identifier_primary_error src_model src_table_id src_identifier =
     \<lparr>err_type = ''Identifier'', err_id = Some src_table_id,
      err_name = Name (i_id src_identifier), err_error = ''Error'',
      err_message = ''Table '' @ format_optional (get_table_name_by_id src_model src_table_id)
        @ '' identifier '' @ i_name src_identifier @ '' primary property mismatch''\<rparr>"

text \<open>
  The body of the loop of \<open>validate_identifiers\<close>: \<open>Returns True\<close> stands for \<open>break\<close>,
  \<open>Returns False\<close> for going on with the next source identifier.
\<close>

definition validate_identifier ::
  "interpreter \<Rightarrow> model \<Rightarrow> string \<Rightarrow> entity_identifier \<Rightarrow> entity_identifier list \<Rightarrow> error list
     \<Rightarrow> bool outcome \<times> entity_identifier list \<times> error list" where
  "validate_identifier py src_model src_table_id src_identifier unmatched_solution_identifiers elog =
     (case validate_identifier_attributes py src_identifier unmatched_solution_identifiers elog of
        (Raises e, elog') \<Rightarrow> (Raises e, unmatched_solution_identifiers, elog')
      | (Returns (solution_identifier, flag), elog') \<Rightarrow>
          (if flag then
             (case solution_identifier of
                None \<Rightarrow> (Raises KeyError, unmatched_solution_identifiers, elog')
              | Some sol \<Rightarrow>
                  (let unmatched = remove1 sol unmatched_solution_identifiers
                   in if is_primary sol \<noteq> is_primary src_identifier then
                        (Returns True, unmatched,
                         elog' @ [identifier_primary_error src_model src_table_id src_identifier])
                      else (Returns False, unmatched, elog')))
           else (Returns False, unmatched_solution_identifiers, elog')))"

fun identifiers_loop ::
  "interpreter \<Rightarrow> model \<Rightarrow> string \<Rightarrow> entity_identifier list \<Rightarrow> entity_identifier list \<Rightarrow> error list
     \<Rightarrow> unit outcome \<times> entity_identifier list \<times> error list" where
  "identifiers_loop py src_model src_table_id [] unmatched elog = (Returns (), unmatched, elog)"
| "identifiers_loop py src_model src_table_id (src_identifier # rest) unmatched elog =
     (case validate_identifier py src_model src_table_id src_identifier unmatched elog of
        (Raises e, unmatched', elog') \<Rightarrow> (Raises e, unmatched', elog')
      | (Returns stop, unmatched', elog') \<Rightarrow>
          (if stop then (Returns (), unmatched', elog')
           else identifiers_loop py src_model src_table_id rest unmatched' elog'))"

definition unmatched_identifier_error :: "model \<Rightarrow> string \<Rightarrow> entity_identifier \<Rightarrow> error" where
  "unmatched_identifier_error src_model src_table_id ident =
     \<lparr>err_type = ''Identifier'', err_id = Some src_table_id, err_name = NoName,
      err_error = ''Error'',
      err_message = ''Unmatched identifier in entity ''
        @ format_optional (get_table_name_by_id src_model src_table_id)
        @ '': '' @ i_name ident\<rparr>"

definition validate_identifiers ::
  "interpreter \<Rightarrow> model \<Rightarrow> model \<Rightarrow> string \<Rightarrow> string \<Rightarrow> error list \<Rightarrow> unit outcome \<times> error list" where
  "validate_identifiers py src_model solution_model src_table_id solution_table_id elog =
     (case get_identifiers solution_model solution_table_id of
        None \<Rightarrow> (Raises TypeError, elog)
      | Some solution_identifiers \<Rightarrow>
          (case get_identifiers src_model src_table_id of
             None \<Rightarrow> (Raises TypeError, elog)
           | Some src_identifiers \<Rightarrow>
               (case identifiers_loop py src_model src_table_id src_identifiers
                       (identifier_set py solution_identifiers) elog of
                  (Raises e, unmatched, elog') \<Rightarrow> (Raises e, elog')
                | (Returns u, unmatched, elog') \<Rightarrow>
                    (Returns (),
                     elog' @ map (unmatched_identifier_error src_model src_table_id) unmatched))))"

subsection \<open>Entities\<close>

definition validate_entity ::
  "interpreter \<Rightarrow> model \<Rightarrow> model \<Rightarrow> string \<Rightarrow> string \<Rightarrow> error list \<Rightarrow> unit outcome \<times> error list" where
  "validate_entity py src_model solution_model src_entity_id solution_entity_id elog =
     (case filter (\<lambda>entity. e_id entity = src_entity_id) (entities src_model) of
        [] \<Rightarrow> (Raises IndexError, elog)
      | src_entity # _ \<Rightarrow>
          (case filter (\<lambda>entity. e_id entity = solution_entity_id) (entities solution_model) of
             [] \<Rightarrow> (Raises IndexError, elog)
           | solution_entity # _ \<Rightarrow>
               (let elog1 = (if is_child src_entity \<noteq> is_child solution_entity
                             then add_error elog ''Entity'' (Some (e_id src_entity))
                                    (Name (e_name src_entity)) ''Error''
                                    ''Entity child property mismatch''
                             else elog)
                in case validate_attributes py src_model solution_model
                          src_entity_id solution_entity_id elog1 of
                     (Raises e, elog2) \<Rightarrow> (Raises e, elog2)
                   | (Returns u, elog2) \<Rightarrow>
                       validate_identifiers py src_model solution_model
                         src_entity_id solution_entity_id elog2)))"

text \<open>The body of the loop of \<open>validate_entities\<close>.\<close>

definition validate_entities_step ::
  "interpreter \<Rightarrow> model \<Rightarrow> model \<Rightarrow> entity \<Rightarrow> entity list \<Rightarrow> error list
     \<Rightarrow> unit outcome \<times> entity list \<times> error list" where
  "validate_entities_step py src_model solution_model src_entity unmatched_solution_entities elog =
     (let (solution_entity_match, score) =
            compare_word (str_upper py) (e_name src_entity) (map e_name unmatched_solution_entities)
      in if score > name_match_threshold then
           (case find (\<lambda>entity. e_name entity = solution_entity_match)
                   unmatched_solution_entities of
              Some matching_entity \<Rightarrow>
                (case validate_entity py src_model solution_model
                        (e_id src_entity) (e_id matching_entity) elog of
                   (r, elog') \<Rightarrow> (r, remove1 matching_entity unmatched_solution_entities, elog'))
            | None \<Rightarrow>
                (Returns (), unmatched_solution_entities,
                 add_error elog ''Entity'' (Some (e_id src_entity)) (Name (e_name src_entity))
                   ''Error''
                   (''Matching entity '' @ solution_entity_match
                      @ '' not found in solution model or already matched'')))
         else (Returns (), unmatched_solution_entities,
               add_error elog ''Entity'' (Some (e_id src_entity)) (Name (e_name src_entity))
                 ''Error''
                 (''Entity '' @ e_name src_entity @ '' not found in solution model'')))"

fun entities_loop ::
  "interpreter \<Rightarrow> model \<Rightarrow> model \<Rightarrow> entity list \<Rightarrow> entity list \<Rightarrow> error list
     \<Rightarrow> unit outcome \<times> entity list \<times> error list" where
  "entities_loop py src_model solution_model [] unmatched elog = (Returns (), unmatched, elog)"
| "entities_loop py src_model solution_model (src_entity # rest) unmatched elog =
     (case validate_entities_step py src_model solution_model src_entity unmatched elog of
        (Raises e, unmatched', elog') \<Rightarrow> (Raises e, unmatched', elog')
      | (Returns u, unmatched', elog') \<Rightarrow>
          entities_loop py src_model solution_model rest unmatched' elog')"

definition unmatched_entity_error :: "entity \<Rightarrow> error" where
  "unmatched_entity_error entity =
     \<lparr>err_type = ''Entity'', err_id = None, err_name = NoName, err_error = ''Error'',
      err_message = ''Unmatched entity in solution model: '' @ e_name entity\<rparr>"

definition validate_entities ::
  "interpreter \<Rightarrow> model \<Rightarrow> model \<Rightarrow> error list \<Rightarrow> unit outcome \<times> error list" where
  "validate_entities py src_model solution_model elog =
     (case entities_loop py src_model solution_model (entities src_model)
             (entity_set py (entities solution_model)) elog of
        (Raises e, unmatched, elog') \<Rightarrow> (Raises e, elog')
      | (Returns u, unmatched, elog') \<Rightarrow>
          (Returns (), elog' @ map unmatched_entity_error unmatched))"

subsection \<open>Relationships\<close>

text \<open>
  \<open>validate_relationship_entities\<close> returns \<open>True\<close> or falls off its end; its only caller
  tests the result, so the model gives a truth value.
\<close>

definition validate_relationship_entities :: "interpreter \<Rightarrow> relationship \<Rightarrow> relationship \<Rightarrow> bool" where
  "validate_relationship_entities py src_relationship solution_relationship =
     (let (solution_entity_match, score) =
            compare_word (str_upper py) (e_name (entity1 src_relationship))
              [e_name (entity1 solution_relationship)];
          (solution_entity_match2, score2) =
            compare_word (str_upper py) (e_name (entity2 src_relationship))
              [e_name (entity2 solution_relationship)];
          (solution_relationship_match_name, name_score) =
            compare_word (str_upper py) (r_name src_relationship) [r_name solution_relationship]
      in score > name_match_threshold \<and> score2 > name_match_threshold
           \<and> name_score > name_match_threshold)"

definition relationship_cardinality_error :: "relationship \<Rightarrow> error" where
  "relationship_cardinality_error src_relationship =
     \<lparr>err_type = ''Relationship'', err_id = Some (r_id src_relationship),
      err_name = Name (r_name src_relationship), err_error = ''Error'',
      err_message = ''Relationship '' @ r_name src_relationship @ '' cardinality mismatch''\<rparr>"

definition relationship_dependent_error :: "relationship \<Rightarrow> error" where
  "relationship_dependent_error src_relationship =
     \<lparr>err_type = ''Relationship'', err_id = Some (r_id src_relationship),
      err_name = Name (r_name src_relationship), err_error = ''Error'',
      err_message = ''Relationship '' @ r_name src_relationship
        @ '' dependent property mismatch''\<rparr>"

definition relationship_not_found_error :: "relationship \<Rightarrow> error" where
  "relationship_not_found_error src_relationship =
     \<lparr>err_type = ''Relationship'', err_id = Some (r_id src_relationship),
      err_name = Name (r_name src_relationship), err_error = ''Error'',
      err_message = ''Relationship '' @ r_name src_relationship
        @ '' not found in solution model''\<rparr>"

definition unmatched_relationship_error :: "relationship \<Rightarrow> error" where
  "unmatched_relationship_error relationship =
     \<lparr>err_type = ''Relationship'', err_id = None, err_name = NoName, err_error = ''Error'',
      err_message = ''Unmatched relationship in solution model: '' @ r_name relationship\<rparr>"

text \<open>
  The inner \<open>for sol_relationship in unmatched_sol_relationships\<close>: the second argument is
  what is left of the iteration, the third the pool. The first component of the result says
  whether the loop was left by \<open>break\<close>.
\<close>

fun relationship_search ::
  "interpreter \<Rightarrow> relationship \<Rightarrow> relationship list \<Rightarrow> relationship list \<Rightarrow> error list
     \<Rightarrow> bool \<times> relationship list \<times> error list" where
  "relationship_search py src_relationship [] unmatched elog = (False, unmatched, elog)"
| "relationship_search py src_relationship (sol_relationship # rest) unmatched elog =
     (if validate_relationship_entities py src_relationship sol_relationship then
        (let unmatched' = remove1 sol_relationship unmatched;
             elog1 = (if cardinality_1to2 src_relationship \<noteq> cardinality_1to2 sol_relationship
                         \<or> cardinality_2to1 src_relationship \<noteq> cardinality_2to1 sol_relationship
                      then elog @ [relationship_cardinality_error src_relationship] else elog)
         in if is_dependent_e1 src_relationship \<noteq> is_dependent_e1 sol_relationship
                 \<or> is_dependent_e2 src_relationship \<noteq> is_dependent_e2 sol_relationship
            then (True, unmatched', elog1 @ [relationship_dependent_error src_relationship])
            else (True, unmatched', elog1))
      else relationship_search py src_relationship rest unmatched elog)"

definition validate_relationships_step ::
  "interpreter \<Rightarrow> relationship \<Rightarrow> relationship list \<Rightarrow> error list \<Rightarrow> relationship list \<times> error list" where
  "validate_relationships_step py src_relationship unmatched elog =
     (case relationship_search py src_relationship unmatched unmatched elog of
        (broke, unmatched', elog') \<Rightarrow>
          (if broke then (unmatched', elog')
           else (unmatched', elog' @ [relationship_not_found_error src_relationship])))"

fun relationships_loop ::
  "interpreter \<Rightarrow> relationship list \<Rightarrow> relationship list \<Rightarrow> error list \<Rightarrow> relationship list \<times> error list" where
  "relationships_loop py [] unmatched elog = (unmatched, elog)"
| "relationships_loop py (src_relationship # rest) unmatched elog =
     (case validate_relationships_step py src_relationship unmatched elog of
        (unmatched', elog') \<Rightarrow> relationships_loop py rest unmatched' elog')"

definition validate_relationships :: "interpreter \<Rightarrow> model \<Rightarrow> model \<Rightarrow> error list \<Rightarrow> error list" where
  "validate_relationships py src_model solution_model elog =
     (case relationships_loop py (relationships src_model)
             (relationship_set py (relationships solution_model)) elog of
        (unmatched, elog') \<Rightarrow> elog' @ map unmatched_relationship_error unmatched)"

subsection \<open>Inheritances\<close>

definition inheritance_error :: "inheritance \<Rightarrow> string \<Rightarrow> error" where
  "inheritance_error src_inheritance what =
     \<lparr>err_type = ''Inheritance'', err_id = Some (h_id src_inheritance),
      err_name = Name (h_name src_inheritance), err_error = ''Error'',
      err_message = ''Inheritance '' @ h_name src_inheritance @ what\<rparr>"

text \<open>
  The inner \<open>for solution_child in solution_inheritance.children\<close> of one source child:
  its body, and the loop from \<open>best_child_match, best_child_score = "", 0\<close>.
\<close>

definition best_child_update :: "interpreter \<Rightarrow> entity \<Rightarrow> entity \<Rightarrow> string \<times> rat \<Rightarrow> string \<times> rat" where
  "best_child_update py child solution_child best =
     (case best of (best_child_match, best_child_score) \<Rightarrow>
        (let (curr_match, curr_score) = compare_word (str_upper py) (e_name child) [e_name solution_child]
         in if curr_score > best_child_score then (curr_match, curr_score)
            else (best_child_match, best_child_score)))"

definition best_child :: "interpreter \<Rightarrow> entity \<Rightarrow> entity list \<Rightarrow> string \<times> rat" where
  "best_child py child solution_children =
     fold (best_child_update py child) solution_children ([], 0)"

text \<open>
  \<open>validate_inheritance\<close> returns \<open>(error_info, flag)\<close>; \<open>error_info\<close> is \<open>None\<close> or the
  arguments of the \<open>add_error\<close> call the caller is to make.
\<close>

definition validate_inheritance ::
  "interpreter \<Rightarrow> inheritance \<Rightarrow> inheritance \<Rightarrow> error list \<Rightarrow> (error option \<times> bool) \<times> error list" where
  "validate_inheritance py src_inheritance solution_inheritance elog =
     (let (parent_match, parent_score) =
            compare_word (str_upper py) (e_name (parent src_inheritance)) [e_name (parent solution_inheritance)];
          children_scores =
            map (\<lambda>child. best_child py child (children solution_inheritance))
                (children src_inheritance)
      in if list_ex (\<lambda>x. snd x < name_match_threshold) children_scores then
           ((Some (inheritance_error src_inheritance '' children mismatch''), False), elog)
         else if parent_score < name_match_threshold then
           ((Some (inheritance_error src_inheritance '' parent mismatch''), False), elog)
         else if mutually_exclusive src_inheritance \<noteq> mutually_exclusive solution_inheritance then
           ((None, True),
            elog @ [inheritance_error src_inheritance '' mutually exclusive property mismatch''])
         else if complete_inh src_inheritance \<noteq> complete_inh solution_inheritance then
           ((None, True),
            elog @ [inheritance_error src_inheritance '' complete property mismatch''])
         else ((None, True), elog))"

text \<open>
  The local variable \<open>err_info\<close> of \<open>validate_inheritances\<close> is bound by the first call of
  \<open>validate_inheritance\<close> and keeps its value from one source inheritance to the next;
  \<open>None\<close> stands for the variable not being bound yet, and reading it then raises
  \<open>UnboundLocalError\<close>.
\<close>

fun inheritance_search ::
  "interpreter \<Rightarrow> inheritance \<Rightarrow> inheritance list \<Rightarrow> inheritance list \<Rightarrow> error option option \<Rightarrow> error list
     \<Rightarrow> bool \<times> inheritance list \<times> error option option \<times> error list" where
  "inheritance_search py src_inheritance [] unmatched err_info elog =
     (False, unmatched, err_info, elog)"
| "inheritance_search py src_inheritance (sol_inheritance # rest) unmatched err_info elog =
     (case validate_inheritance py src_inheritance sol_inheritance elog of
        ((err_info', flag), elog') \<Rightarrow>
          (if flag then (True, remove1 sol_inheritance unmatched, Some err_info', elog')
           else inheritance_search py src_inheritance rest unmatched (Some err_info') elog'))"

definition validate_inheritances_step ::
  "interpreter \<Rightarrow> inheritance \<Rightarrow> inheritance list \<Rightarrow> error option option \<Rightarrow> error list
     \<Rightarrow> unit outcome \<times> inheritance list \<times> error option option \<times> error list" where
  "validate_inheritances_step py src_inheritance unmatched err_info elog =
     (case inheritance_search py src_inheritance unmatched unmatched err_info elog of
        (broke, unmatched', err_info', elog') \<Rightarrow>
          (if broke then (Returns (), unmatched', err_info', elog')
           else (case err_info' of
                   None \<Rightarrow> (Raises UnboundLocalError, unmatched', err_info', elog')
                 | Some (Some info) \<Rightarrow> (Returns (), unmatched', err_info', elog' @ [info])
                 | Some None \<Rightarrow>
                     (Returns (), unmatched', err_info',
                      elog' @ [inheritance_error src_inheritance
                                 '' not found in solution model'']))))"

fun inheritances_loop ::
  "interpreter \<Rightarrow> inheritance list \<Rightarrow> inheritance list \<Rightarrow> error option option \<Rightarrow> error list
     \<Rightarrow> unit outcome \<times> inheritance list \<times> error list" where
  "inheritances_loop py [] unmatched err_info elog = (Returns (), unmatched, elog)"
| "inheritances_loop py (src_inheritance # rest) unmatched err_info elog =
     (case validate_inheritances_step py src_inheritance unmatched err_info elog of
        (Raises e, unmatched', err_info', elog') \<Rightarrow> (Raises e, unmatched', elog')
      | (Returns u, unmatched', err_info', elog') \<Rightarrow>
          inheritances_loop py rest unmatched' err_info' elog')"

definition unmatched_inheritance_error :: "inheritance \<Rightarrow> error" where
  "unmatched_inheritance_error inheritance =
     \<lparr>err_type = ''Inheritance'', err_id = None, err_name = NoName, err_error = ''Error'',
      err_message = ''Unmatched inheritance in solution model: '' @ h_name inheritance\<rparr>"

definition validate_inheritances ::
  "interpreter \<Rightarrow> model \<Rightarrow> model \<Rightarrow> error list \<Rightarrow> unit outcome \<times> error list" where
  "validate_inheritances py src_model solution_model elog =
     (case inheritances_loop py (inheritances src_model)
             (inheritance_set py (inheritances solution_model)) None elog of
        (Raises e, unmatched, elog') \<Rightarrow> (Raises e, elog')
      | (Returns u, unmatched, elog') \<Rightarrow>
          (Returns (), elog' @ map unmatched_inheritance_error unmatched))"

subsection \<open>Associations\<close>

definition association_attributes_error :: "association \<Rightarrow> error" where
  "association_attributes_error src_association =
     \<lparr>err_type = ''Association'', err_id = Some (as_id src_association),
      err_name = Name (as_name src_association), err_error = ''Error'',
      err_message = ''Association attributes mismatch''\<rparr>"

definition association_not_found_error :: "association \<Rightarrow> error" where
  "association_not_found_error src_association =
     \<lparr>err_type = ''Association'', err_id = Some (as_id src_association),
      err_name = Name (as_name src_association), err_error = ''Error'',
      err_message = ''Association '' @ as_name src_association
        @ '' not found in solution model''\<rparr>"

definition unmatched_association_error :: "association \<Rightarrow> error" where
  "unmatched_association_error association =
     \<lparr>err_type = ''Association'', err_id = None, err_name = NoName, err_error = ''Error'',
      err_message = ''Unmatched association in solution model: '' @ as_name association\<rparr>"

text \<open>
  \<open>validate_association\<close> returns \<open>True\<close>, returns \<open>False\<close>, or reaches the end of its body
  without a \<open>return\<close> and so gives Python's \<open>None\<close>: the result is \<open>Some True\<close>,
  \<open>Some False\<close> or \<open>None\<close>. The caller tests it with \<open>if\<close>; only \<open>True\<close> passes.
\<close>

definition validate_association ::
  "interpreter \<Rightarrow> association \<Rightarrow> association \<Rightarrow> error list \<Rightarrow> bool option \<times> error list" where
  "validate_association py src_association solution_association elog =
     (if length (as_attributes src_association) = length (as_attributes solution_association)
         \<and> length (as_attributes src_association) = 0
      then (Some True, elog)
      else
        (let attribute_scores =
               concat (map (\<lambda>src_attribute.
                              map (\<lambda>solution_attribute.
                                     (snd (compare_word (str_upper py) (a_name src_attribute)
                                             [a_name solution_attribute]),
                                      a_name src_attribute))
                                  (as_attributes solution_association))
                           (as_attributes src_association))
         in if list_all (\<lambda>x. fst x < name_match_threshold) attribute_scores
            then (Some False, elog @ [association_attributes_error src_association])
            else (None, elog)))"

definition truthy :: "bool option \<Rightarrow> bool" where
  "truthy v = (v = Some True)"

fun association_search ::
  "interpreter \<Rightarrow> association \<Rightarrow> association list \<Rightarrow> association list \<Rightarrow> error list
     \<Rightarrow> bool \<times> association list \<times> error list" where
  "association_search py src_entity_association [] pool elog = (False, pool, elog)"
| "association_search py src_entity_association (solution_entity_association # rest) pool elog =
     (let (name_match, name_score) =
            compare_word (str_upper py) (as_name src_entity_association) [as_name solution_entity_association]
      in if name_score > name_match_threshold then
           (case validate_association py src_entity_association solution_entity_association elog of
              (res, elog') \<Rightarrow>
                (if truthy res then (True, remove1 solution_entity_association pool, elog')
                 else association_search py src_entity_association rest pool elog'))
         else association_search py src_entity_association rest pool elog)"

definition validate_associations_step ::
  "interpreter \<Rightarrow> association \<Rightarrow> association list \<Rightarrow> error list \<Rightarrow> association list \<times> error list" where
  "validate_associations_step py src_entity_association pool elog =
     (case association_search py src_entity_association pool pool elog of
        (broke, pool', elog') \<Rightarrow>
          (if broke then (pool', elog')
           else (pool', elog' @ [association_not_found_error src_entity_association])))"

fun associations_loop ::
  "interpreter \<Rightarrow> association list \<Rightarrow> association list \<Rightarrow> error list \<Rightarrow> association list \<times> error list" where
  "associations_loop py [] pool elog = (pool, elog)"
| "associations_loop py (src_entity_association # rest) pool elog =
     (case validate_associations_step py src_entity_association pool elog of
        (pool', elog') \<Rightarrow> associations_loop py rest pool' elog')"

definition validate_associations :: "interpreter \<Rightarrow> model \<Rightarrow> model \<Rightarrow> error list \<Rightarrow> error list" where
  "validate_associations py src_model solution_model elog =
     (case associations_loop py (associations src_model)
             (association_set py (associations solution_model)) elog of
        (pool, elog') \<Rightarrow> elog' @ map unmatched_association_error pool)"

subsection \<open>Association links\<close>

text \<open>
  The messages of this pass format the tuple \<open>(link.association, link.entity)\<close>; neither
  class defines a representation, so Python prints the class names and the addresses of
  the two objects. The model prints the class names only.
\<close>

definition link_repr :: "association_link \<Rightarrow> string" where
  "link_repr link = ''(<CDMmodel.Association object>, <CDMmodel.Entity object>)''"

definition link_cardinality_error :: "association_link \<Rightarrow> error" where
  "link_cardinality_error src_link =
     \<lparr>err_type = ''Association Link'', err_id = Some (l_id src_link),
      err_name = AssociationObject (l_association src_link), err_error = ''Error'',
      err_message = ''Association link '' @ link_repr src_link @ '' cardinality mismatch''\<rparr>"

definition link_not_found_error :: "association_link \<Rightarrow> error" where
  "link_not_found_error src_link =
     \<lparr>err_type = ''Association Link'', err_id = Some (l_id src_link),
      err_name = AssociationObject (l_association src_link), err_error = ''Error'',
      err_message = ''Association link '' @ link_repr src_link
        @ '' not found in solution model''\<rparr>"

definition unmatched_link_error :: "association_link \<Rightarrow> error" where
  "unmatched_link_error link =
     \<lparr>err_type = ''Association Link'', err_id = None, err_name = NoName, err_error = ''Error'',
      err_message = ''Unmatched association link in solution model: '' @ link_repr link\<rparr>"

definition validate_association_link :: "interpreter \<Rightarrow> association_link \<Rightarrow> association_link \<Rightarrow> bool" where
  "validate_association_link py src_link solution_link =
     (let (solution_entity_match, score) =
            compare_word (str_upper py) (as_name (l_association src_link))
              [as_name (l_association solution_link)];
          (solution_entity_match2, score2) =
            compare_word (str_upper py) (e_name (l_entity src_link)) [e_name (l_entity solution_link)]
      in if score > name_match_threshold \<and> score2 > name_match_threshold then True else False)"

text \<open>
  The inner \<open>for solution_link in solution_links\<close> iterates the set it removes from. After a
  removal the loop is left by \<open>break\<close> only when the cardinalities agree; otherwise the
  \<open>for\<close> statement asks the iterator of the changed set for its next member, which raises
  \<open>RuntimeError\<close> (set changed size during iteration), whatever is left of the set.
\<close>

fun association_link_search ::
  "interpreter \<Rightarrow> association_link \<Rightarrow> association_link list \<Rightarrow> association_link list \<Rightarrow> error list
     \<Rightarrow> bool outcome \<times> association_link list \<times> error list" where
  "association_link_search py src_link [] solution_links elog = (Returns False, solution_links, elog)"
| "association_link_search py src_link (solution_link # rest) solution_links elog =
     (if validate_association_link py src_link solution_link then
        (let solution_links' = remove1 solution_link solution_links
         in if l_cardinality src_link = l_cardinality solution_link
            then (Returns True, solution_links', elog)
            else (Raises RuntimeError, solution_links',
                  elog @ [link_cardinality_error src_link]))
      else association_link_search py src_link rest solution_links elog)"

definition validate_association_links_step ::
  "interpreter \<Rightarrow> association_link \<Rightarrow> association_link list \<Rightarrow> error list
     \<Rightarrow> unit outcome \<times> association_link list \<times> error list" where
  "validate_association_links_step py src_link solution_links elog =
     (case association_link_search py src_link solution_links solution_links elog of
        (Raises e, solution_links', elog') \<Rightarrow> (Raises e, solution_links', elog')
      | (Returns broke, solution_links', elog') \<Rightarrow>
          (if broke then (Returns (), solution_links', elog')
           else (Returns (), solution_links', elog' @ [link_not_found_error src_link])))"

fun association_links_loop ::
  "interpreter \<Rightarrow> association_link list \<Rightarrow> association_link list \<Rightarrow> error list
     \<Rightarrow> unit outcome \<times> association_link list \<times> error list" where
  "association_links_loop py [] solution_links elog = (Returns (), solution_links, elog)"
| "association_links_loop py (src_link # rest) solution_links elog =
     (case validate_association_links_step py src_link solution_links elog of
        (Raises e, solution_links', elog') \<Rightarrow> (Raises e, solution_links', elog')
      | (Returns u, solution_links', elog') \<Rightarrow>
          association_links_loop py rest solution_links' elog')"

definition validate_association_links ::
  "interpreter \<Rightarrow> model \<Rightarrow> model \<Rightarrow> error list \<Rightarrow> unit outcome \<times> error list" where
  "validate_association_links py src_model solution_model elog =
     (case association_links_loop py (association_links src_model)
             (association_link_set py (association_links solution_model)) elog of
        (Raises e, solution_links, elog') \<Rightarrow> (Raises e, elog')
      | (Returns u, solution_links, elog') \<Rightarrow>
          (Returns (), elog' @ map unmatched_link_error solution_links))"

subsection \<open>The five passes\<close>

definition validate :: "interpreter \<Rightarrow> model \<Rightarrow> model \<Rightarrow> error list \<Rightarrow> unit outcome \<times> error list" where
  "validate py src_model solution_model elog =
     (case validate_entities py src_model solution_model elog of
        (Raises e, elog1) \<Rightarrow> (Raises e, elog1)
      | (Returns u, elog1) \<Rightarrow>
          (let elog2 = validate_relationships py src_model solution_model elog1
           in case validate_inheritances py src_model solution_model elog2 of
                (Raises e, elog3) \<Rightarrow> (Raises e, elog3)
              | (Returns u, elog3) \<Rightarrow>
                  (let elog4 = validate_associations py src_model solution_model elog3
                   in validate_association_links py src_model solution_model elog4)))"

section \<open>Notions used in the statements, and sample inputs\<close>

text \<open>
  The score of one name against one other name, as every correspondence test of the
  validation computes it: \<open>compare_word(a, [b])[1]\<close>.
\<close>

definition name_similarity :: "interpreter \<Rightarrow> string \<Rightarrow> string \<Rightarrow> rat" where
  "name_similarity py a b = similarity_score (str_upper py a) (str_upper py b)"

text \<open>
  Two sample interpreters for inputs whose names are ASCII strings: both map case as
  \<open>str.upper\<close> does on such strings; one iterates every pool in the order of the list it
  was made from, the other in the reverse order.
\<close>

definition list_order :: interpreter where
  "list_order = \<lparr>str_upper = ascii_upper, entity_set = (\<lambda>xs. xs), attribute_set = (\<lambda>xs. xs), identifier_set = (\<lambda>xs. xs),
     relationship_set = (\<lambda>xs. xs), inheritance_set = (\<lambda>xs. xs), association_set = (\<lambda>xs. xs),
     association_link_set = (\<lambda>xs. xs)\<rparr>"


definition example_attribute :: "string \<Rightarrow> attribute" where
  "example_attribute n = \<lparr>a_id = n, a_name = n, a_code = n, mandatory = False,
     a_datatype = None, a_length = None, a_precision = None, a_domain = None\<rparr>"

definition example_entity :: "string \<Rightarrow> attribute list \<Rightarrow> entity_identifier list \<Rightarrow> entity" where
  "example_entity n attrs idents = \<lparr>e_id = n, e_name = n, e_code = n, is_child = False,
     e_attributes = attrs, e_identifiers = idents\<rparr>"

definition example_relationship :: "string \<Rightarrow> bool \<Rightarrow> string \<Rightarrow> string \<Rightarrow> relationship" where
  "example_relationship n dep c12 c21 = \<lparr>r_id = n, r_name = n, r_code = n,
     is_dependent_e1 = dep, is_dependent_e2 = False,
     entity1 = example_entity ''Person'' [] [], entity2 = example_entity ''Firm'' [] [],
     cardinality_1to2 = c12, cardinality_2to1 = c21\<rparr>"

definition example_identifier :: "string \<Rightarrow> string list \<Rightarrow> bool \<Rightarrow> entity_identifier" where
  "example_identifier n attrs primary = \<lparr>i_id = n, i_name = n,
     identifier_attributes = map example_attribute attrs, is_primary = primary\<rparr>"

definition example_model :: "entity list \<Rightarrow> model" where
  "example_model es = \<lparr>m_id = ''m'', m_name = ''m'', m_code = ''m'', entities = es,
     relationships = [], inheritances = [], domains = [], associations = [],
     association_links = []\<rparr>"

definition example_inheritance ::
  "string \<Rightarrow> string \<Rightarrow> string list \<Rightarrow> bool \<Rightarrow> bool \<Rightarrow> inheritance" where
  "example_inheritance n p cs me co = \<lparr>h_id = n, h_name = n, h_code = n,
     mutually_exclusive = me, complete_inh = co,
     parent = example_entity p [] [],
     children = map (\<lambda>c. (example_entity c [] [])\<lparr>is_child := True\<rparr>) cs\<rparr>"

text \<open>
  The two conditions of inheritance correspondence, and the reason \<open>validate_inheritance\<close>
  gives for a candidate that fails them.
\<close>

definition children_qualify :: "interpreter \<Rightarrow> inheritance \<Rightarrow> inheritance \<Rightarrow> bool" where
  "children_qualify py src sol =
     (\<forall>child \<in> set (children src). \<exists>solution_child \<in> set (children sol).
        name_match_threshold \<le> name_similarity py (e_name child) (e_name solution_child))"

definition parent_qualifies :: "interpreter \<Rightarrow> inheritance \<Rightarrow> inheritance \<Rightarrow> bool" where
  "parent_qualifies py src sol =
     (name_match_threshold \<le> name_similarity py (e_name (parent src)) (e_name (parent sol)))"

definition failure_info :: "interpreter \<Rightarrow> inheritance \<Rightarrow> inheritance \<Rightarrow> error" where
  "failure_info py src sol =
     (if \<not> children_qualify py src sol then inheritance_error src '' children mismatch''
      else inheritance_error src '' parent mismatch'')"

text \<open>
  The test that the first loop of \<open>validate_identifier_attributes\<close> makes before any candidate
  is looked at: every member attribute of the source identifier has, in every identifier of
  the pool, a member scoring at least 0.85.
\<close>

definition identifier_gate :: "interpreter \<Rightarrow> entity_identifier \<Rightarrow> entity_identifier list \<Rightarrow> bool" where
  "identifier_gate py src pool =
     (\<forall>a \<in> set (identifier_attributes src). \<forall>c \<in> set pool.
        \<exists>b \<in> set (identifier_attributes c).
          name_match_threshold \<le> name_similarity py (a_name a) (a_name b))"

definition example_association :: "string \<Rightarrow> string list \<Rightarrow> association" where
  "example_association n attrs = \<lparr>as_id = n, as_name = n, as_code = n,
     as_attributes = map example_attribute attrs\<rparr>"

definition example_link :: "string \<Rightarrow> string \<Rightarrow> string \<Rightarrow> string \<Rightarrow> association_link" where
  "example_link n a e c = \<lparr>l_id = n, l_association = example_association a [],
     l_entity = example_entity e [] [], l_cardinality = c\<rparr>"

section \<open>Properties of the scorer\<close>

lemma edit_distance_Nil2 [simp]: "edit_distance xs [] = length xs"
  by (cases xs) simp_all

lemma edit_distance_sym: "edit_distance xs ys = edit_distance ys xs"
  by (induction xs ys rule: edit_distance.induct) (auto simp: min3_def)

lemma edit_distance_refl [simp]: "edit_distance xs xs = 0"
  by (induction xs) (simp_all add: min3_def)

lemma edit_distance_le_max: "edit_distance xs ys \<le> max (length xs) (length ys)"
  by (induction xs ys rule: edit_distance.induct) (auto simp: min3_def)

lemma min3_add: "min3 a b c + k = min3 (a + k) (b + k) (c + k)"
  by (simp add: min3_def min_add_distrib_left)

lemma edit_distance_snoc_Nil:
  "edit_distance [a] (ys @ [b]) =
     min3 (edit_distance [] (ys @ [b]) + 1) (edit_distance [a] ys + 1)
          (edit_distance [] ys + (if a \<noteq> b then 1 else 0))"
proof (induction ys)
  case Nil
  then show ?case by (simp add: min3_def)
next
  case (Cons y ys)
  have IH: "edit_distance [a] (ys @ [b]) =
      min3 (length ys + 2) (edit_distance [a] ys + 1) (length ys + (if a \<noteq> b then 1 else 0))"
    using Cons.IH by (simp add: min3_def)
  have L: "edit_distance [a] ((y # ys) @ [b]) =
      min3 (length ys + 3) (edit_distance [a] (ys @ [b]) + 1)
           (length ys + 1 + (if a \<noteq> y then 1 else 0))"
    by (simp add: min3_def)
  have R: "edit_distance [a] (y # ys) =
      min3 (length ys + 2) (edit_distance [a] ys + 1) (length ys + (if a \<noteq> y then 1 else 0))"
    by (simp add: min3_def)
  have N1: "edit_distance [] ((y # ys) @ [b]) = length ys + 2" by simp
  have N2: "edit_distance [] (y # ys) = length ys + 1" by simp
  show ?case
    unfolding L R IH N1 N2 min3_def by (auto simp: min_def)
qed

lemma edit_distance_snoc_Nil2:
  "edit_distance (xs @ [a]) [b] =
     min3 (edit_distance xs [b] + 1) (edit_distance (xs @ [a]) [] + 1)
          (edit_distance xs [] + (if a \<noteq> b then 1 else 0))"
proof -
  have "edit_distance (xs @ [a]) [b] = edit_distance [b] (xs @ [a])"
    by (rule edit_distance_sym)
  also have "\<dots> = min3 (edit_distance [] (xs @ [a]) + 1) (edit_distance [b] xs + 1)
          (edit_distance [] xs + (if b \<noteq> a then 1 else 0))"
    by (rule edit_distance_snoc_Nil)
  also have "edit_distance [b] xs = edit_distance xs [b]"
    by (rule edit_distance_sym)
  finally show ?thesis
    unfolding min3_def by (auto simp: min_def)
qed

text \<open>The recursion on the last elements, which is the one the table follows.\<close>

lemma edit_distance_snoc:
  "edit_distance (xs @ [a]) (ys @ [b]) =
     min3 (edit_distance xs (ys @ [b]) + 1) (edit_distance (xs @ [a]) ys + 1)
          (edit_distance xs ys + (if a \<noteq> b then 1 else 0))"
proof (induction xs ys rule: edit_distance.induct)
  case (1 ys)
  show ?case using edit_distance_snoc_Nil [of a ys b] by simp
next
  case (2 x xs)
  show ?case using edit_distance_snoc_Nil2 [of "x # xs" a b] by simp
next
  case (3 x xs y ys)
  have A: "edit_distance (xs @ [a]) (y # ys @ [b]) =
     min3 (edit_distance xs (y # ys @ [b]) + 1) (edit_distance (xs @ [a]) (y # ys) + 1)
          (edit_distance xs (y # ys) + (if a \<noteq> b then 1 else 0))"
    using "3.IH"(1) by simp
  have B: "edit_distance (x # xs @ [a]) (ys @ [b]) =
     min3 (edit_distance (x # xs) (ys @ [b]) + 1) (edit_distance (x # xs @ [a]) ys + 1)
          (edit_distance (x # xs) ys + (if a \<noteq> b then 1 else 0))"
    using "3.IH"(2) by simp
  have C: "edit_distance (xs @ [a]) (ys @ [b]) =
     min3 (edit_distance xs (ys @ [b]) + 1) (edit_distance (xs @ [a]) ys + 1)
          (edit_distance xs ys + (if a \<noteq> b then 1 else 0))"
    using "3.IH"(3) .
  have L: "edit_distance ((x # xs) @ [a]) ((y # ys) @ [b]) =
     min3 (edit_distance (xs @ [a]) (y # ys @ [b]) + 1)
          (edit_distance (x # xs @ [a]) (ys @ [b]) + 1)
          (edit_distance (xs @ [a]) (ys @ [b]) + (if x \<noteq> y then 1 else 0))"
    by simp
  have R1: "edit_distance (x # xs) ((y # ys) @ [b]) =
     min3 (edit_distance xs (y # ys @ [b]) + 1) (edit_distance (x # xs) (ys @ [b]) + 1)
          (edit_distance xs (ys @ [b]) + (if x \<noteq> y then 1 else 0))"
    by simp
  have R2: "edit_distance ((x # xs) @ [a]) (y # ys) =
     min3 (edit_distance (xs @ [a]) (y # ys) + 1) (edit_distance (x # xs @ [a]) ys + 1)
          (edit_distance (xs @ [a]) ys + (if x \<noteq> y then 1 else 0))"
    by simp
  have R3: "edit_distance (x # xs) (y # ys) =
     min3 (edit_distance xs (y # ys) + 1) (edit_distance (x # xs) ys + 1)
          (edit_distance xs ys + (if x \<noteq> y then 1 else 0))"
    by simp
  show ?case
    unfolding L R1 R2 R3 A B C min3_add
    by (simp only: min3_def min.assoc min.commute min.left_commute add.assoc add.commute
          add.left_commute)
qed

lemma cell_0 [simp]: "cell s1 s2 0 j = min j (length s2)" "cell s1 s2 i 0 = min i (length s1)"
  by (simp_all add: cell_def min.commute)

lemma cell_Suc:
  assumes "i < length s1" "j < length s2"
  shows "cell s1 s2 (Suc i) (Suc j) =
    min3 (cell s1 s2 i (Suc j) + 1) (cell s1 s2 (Suc i) j + 1)
         (cell s1 s2 i j + (if s1 ! i \<noteq> s2 ! j then 1 else 0))"
  using assms edit_distance_snoc [of "take i s1" "s1 ! i" "take j s2" "s2 ! j"]
  by (simp add: cell_def take_Suc_conv_app_nth)

text \<open>
  Loop invariant of the inner loop: with row \<open>i\<close> of the table as \<open>previous_row\<close> and the
  first \<open>j + 1\<close> cells of row \<open>i + 1\<close> as \<open>current_row\<close>, the loop completes row \<open>i + 1\<close>.
\<close>

lemma current_row_loop_correct:
  assumes "i < length s1" "j \<le> length s2"
  shows "current_row_loop (s1 ! i) (row s1 s2 i) (enumerate j (drop j s2))
           (map (cell s1 s2 (Suc i)) [0 ..< j + 1]) = row s1 s2 (Suc i)"
  using assms
proof (induction "length s2 - j" arbitrary: j)
  case 0
  then show ?case by (simp add: row_def)
next
  case (Suc k)
  then have lt: "j < length s2" by simp
  then have dr: "drop j s2 = s2 ! j # drop (Suc j) s2"
    by (simp add: Cons_nth_drop_Suc)
  have k: "k = length s2 - Suc j" using Suc.hyps(2) by simp
  have prev1: "row s1 s2 i ! (j + 1) = cell s1 s2 i (Suc j)"
    using lt unfolding row_def by (simp add: nth_map_upt del: upt_Suc)
  have prev0: "row s1 s2 i ! j = cell s1 s2 i j"
    using lt unfolding row_def by (simp add: nth_map_upt del: upt_Suc)
  have cur: "map (cell s1 s2 (Suc i)) [0 ..< j + 1] ! j = cell s1 s2 (Suc i) j"
    by (simp add: nth_append)
  have ext: "map (cell s1 s2 (Suc i)) [0 ..< j + 1] @ [cell s1 s2 (Suc i) (Suc j)]
      = map (cell s1 s2 (Suc i)) [0 ..< Suc j + 1]"
    by simp
  have step: "current_row_loop (s1 ! i) (row s1 s2 i) (enumerate j (drop j s2))
           (map (cell s1 s2 (Suc i)) [0 ..< j + 1])
      = current_row_loop (s1 ! i) (row s1 s2 i) (enumerate (Suc j) (drop (Suc j) s2))
           (map (cell s1 s2 (Suc i)) [0 ..< Suc j + 1])"
    unfolding dr enumerate_simps current_row_loop.simps Let_def prev1 prev0 cur
      cell_Suc [OF Suc.prems(1) lt, symmetric] ext ..
  show ?case
    unfolding step using Suc.hyps(1) [OF k Suc.prems(1)] lt by simp
qed

lemma previous_row_loop_correct:
  assumes "i \<le> length s1"
  shows "previous_row_loop (enumerate i (drop i s1)) s2 (row s1 s2 i) = row s1 s2 (length s1)"
  using assms
proof (induction "length s1 - i" arbitrary: i)
  case 0
  then show ?case by simp
next
  case (Suc k)
  then have lt: "i < length s1" by simp
  then have dr: "drop i s1 = s1 ! i # drop (Suc i) s1"
    by (simp add: Cons_nth_drop_Suc)
  have k: "k = length s1 - Suc i" using Suc.hyps(2) by simp
  have start: "[i + 1] = map (cell s1 s2 (Suc i)) [0 ..< 0 + 1]"
    using lt by simp
  have inner: "current_row_loop (s1 ! i) (row s1 s2 i) (enumerate 0 s2) [i + 1] = row s1 s2 (Suc i)"
    unfolding start using current_row_loop_correct [OF lt, of 0 s2] by simp
  show ?case
    unfolding dr enumerate_simps previous_row_loop.simps inner
    using Suc.hyps(1) [OF k] lt by simp
qed

lemma levenshtein_rows_eq: "levenshtein_rows s1 s2 = edit_distance s1 s2"
proof (cases "length s2 = 0")
  case True
  then show ?thesis by (simp add: levenshtein_rows_def)
next
  case False
  have r0: "[0 ..< length s2 + 1] = row s1 s2 0"
    unfolding row_def by (rule sym, rule map_idI) auto
  have "previous_row_loop (enumerate 0 s1) s2 [0 ..< length s2 + 1] = row s1 s2 (length s1)"
    unfolding r0 using previous_row_loop_correct [of 0 s1 s2] by simp
  then show ?thesis using False
    by (simp add: levenshtein_rows_def row_def cell_def)
qed

lemma levenshtein_distance_eq: "levenshtein_distance s1 s2 = edit_distance s1 s2"
  by (simp add: levenshtein_distance_def levenshtein_rows_eq edit_distance_sym [of s2])

lemma similarity_score_eq:
  "similarity_score a b =
     (if max (length a) (length b) = 0 then 1
      else 1 - of_nat (edit_distance a b) / of_nat (max (length a) (length b)))"
  by (simp add: similarity_score_def Let_def levenshtein_distance_eq)

lemma similarity_score_sym: "similarity_score a b = similarity_score b a"
  by (simp add: similarity_score_eq edit_distance_sym [of a] max.commute)

lemma similarity_score_refl: "similarity_score a a = 1"
  by (simp add: similarity_score_eq)

lemma ratio_le_1:
  fixes d n :: nat
  assumes "d \<le> n"
  shows "(of_nat d :: rat) / of_nat n \<le> 1"
proof (cases "n = 0")
  case True
  then show ?thesis by simp
next
  case False
  then have "(0::rat) < of_nat n" by simp
  moreover have "(of_nat d :: rat) \<le> of_nat n" using assms by (simp only: of_nat_le_iff)
  ultimately show ?thesis by (simp only: divide_le_eq_1_pos)
qed

lemma similarity_score_ge0: "0 \<le> similarity_score a b"
proof -
  have "edit_distance a b \<le> max (length a) (length b)"
    by (rule edit_distance_le_max)
  from ratio_le_1 [OF this] show ?thesis
    by (simp add: similarity_score_eq del: of_nat_max)
qed

lemma similarity_score_le1: "similarity_score a b \<le> 1"
  by (simp add: similarity_score_eq)

lemma hd_insort_key:
  "hd (insort_key f x ys) = (if ys = [] \<or> f x \<le> f (hd ys) then x else hd ys)"
  by (cases ys) simp_all

lemma sort_key_eq_Nil [simp]: "sort_key f xs = [] \<longleftrightarrow> xs = []"
  by (metis length_sort length_0_conv)

lemma hd_sort_key_least:
  assumes "xs \<noteq> []"
  shows "hd (sort_key f xs) \<in> set xs \<and> (\<forall>y \<in> set xs. f (hd (sort_key f xs)) \<le> f y)"
proof -
  have ne: "sort_key f xs \<noteq> []" using assms by simp
  then obtain h t where ht: "sort_key f xs = h # t" by (cases "sort_key f xs") auto
  have "sorted (map f (h # t))" using sorted_sort_key [of f xs] ht by simp
  then have "\<forall>y \<in> set (h # t). f h \<le> f y" by auto
  moreover have "set (h # t) = set xs" using set_sort [of f xs] ht by simp
  ultimately show ?thesis using ht by auto
qed

text \<open>Stability: among the rows of least key, the sort puts the first of the input in front.\<close>

lemma hd_sort_key_first:
  assumes "i < length xs"
    and "\<forall>j < length xs. f (xs ! i) \<le> f (xs ! j)"
    and "\<forall>j < i. f (xs ! i) < f (xs ! j)"
  shows "hd (sort_key f xs) = xs ! i"
  using assms
proof (induction xs arbitrary: i)
  case Nil
  then show ?case by simp
next
  case (Cons x xs)
  show ?case
  proof (cases i)
    case 0
    have "xs \<noteq> [] \<Longrightarrow> f x \<le> f (hd (sort_key f xs))"
    proof -
      assume ne: "xs \<noteq> []"
      then have "hd (sort_key f xs) \<in> set xs" using hd_sort_key_least by blast
      then obtain j where "j < length xs" "xs ! j = hd (sort_key f xs)"
        by (auto simp: in_set_conv_nth)
      then show ?thesis using Cons.prems(2) 0
        by (metis Suc_less_eq length_Cons nth_Cons_0 nth_Cons_Suc)
    qed
    then show ?thesis using 0 by (auto simp: hd_insort_key)
  next
    case (Suc k)
    have k: "k < length xs" using Cons.prems(1) Suc by simp
    have le: "\<forall>j < length xs. f (xs ! k) \<le> f (xs ! j)"
      using Cons.prems(2) Suc by auto
    have lt: "\<forall>j < k. f (xs ! k) < f (xs ! j)"
      using Cons.prems(3) Suc by auto
    have ih: "hd (sort_key f xs) = xs ! k" by (rule Cons.IH [OF k le lt])
    have "f (xs ! k) < f x" using Cons.prems(3) Suc by auto
    moreover have "xs \<noteq> []" using k by auto
    ultimately show ?thesis using ih Suc by (auto simp: hd_insort_key)
  qed
qed

lemma compare_word_Nil: "compare_word upper src_w [] = (src_w, 0)"
  by (simp add: compare_word_def)

lemma compare_word_single:
  "compare_word upper a [b] = (b, similarity_score (upper a) (upper b))"
  by (simp add: compare_word_def sorted_reverse_def)

lemma compare_word_first_best:
  assumes "i < length ws"
    and "\<forall>j < length ws. similarity_score (upper w) (upper (ws ! j))
            \<le> similarity_score (upper w) (upper (ws ! i))"
    and "\<forall>j < i. similarity_score (upper w) (upper (ws ! j))
            < similarity_score (upper w) (upper (ws ! i))"
  shows "compare_word upper w ws = (ws ! i, similarity_score (upper w) (upper (ws ! i)))"
proof -
  let ?t = "map (\<lambda>sol_word. (sol_word, similarity_score (upper w) (upper sol_word))) ws"
  have "hd (sort_key (\<lambda>x. - snd x) ?t) = ?t ! i"
    by (rule hd_sort_key_first) (use assms in simp_all)
  then show ?thesis using assms(1)
    by (auto simp: compare_word_def sorted_reverse_def Let_def)
qed

text \<open>The score that \<open>compare_word\<close> returns is the best score over the candidates.\<close>

lemma compare_word_score_ge:
  assumes "0 < t"
  shows "t \<le> snd (compare_word upper w ws) \<longleftrightarrow>
    (\<exists>x \<in> set ws. t \<le> similarity_score (upper w) (upper x))"
proof (cases "ws = []")
  case True
  then show ?thesis using assms by (simp add: compare_word_Nil)
next
  case False
  let ?t = "map (\<lambda>sol_word. (sol_word, similarity_score (upper w) (upper sol_word))) ws"
  have ne: "?t \<noteq> []" using False by simp
  have h: "hd (sort_key (\<lambda>x. - snd x) ?t) \<in> set ?t \<and>
    (\<forall>y \<in> set ?t. - snd (hd (sort_key (\<lambda>x. - snd x) ?t)) \<le> - snd y)"
    by (rule hd_sort_key_least [OF ne])
  have cw: "compare_word upper w ws = hd (sort_key (\<lambda>x. - snd x) ?t)"
    using False by (simp add: compare_word_def sorted_reverse_def)
  from h have mem: "\<exists>x \<in> set ws. snd (compare_word upper w ws) = similarity_score (upper w) (upper x)"
    unfolding cw by auto
  from h have top: "\<forall>x \<in> set ws. similarity_score (upper w) (upper x) \<le> snd (compare_word upper w ws)"
    unfolding cw by auto
  show ?thesis using mem top by (metis order_trans)
qed

text \<open>
  Claim C9. \<open>levenshtein_distance\<close> computes the Levenshtein distance (on \<open>KITTEN\<close> and
  \<open>SITTING\<close> it is 3), and the similarity of two strings that are not both empty is one
  minus that distance over the greater length. The similarity lies between 0 and 1, is 1 on
  equal strings, and is symmetric; two empty strings score 1, the empty string against
  \<open>ABC\<close> scores 0. \<open>compare_word\<close> scores the upper-cased words, so two words with the same
  upper-case form score 1, as \<open>abc\<close> and \<open>ABC\<close> do; on an empty candidate list it returns the
  source word with score 0; and a candidate whose score no candidate exceeds and no earlier
  candidate reaches is the one returned.
\<close>

theorem scorer_contract:
  "levenshtein_distance a b = edit_distance a b
   \<and> levenshtein_distance ''KITTEN'' ''SITTING'' = 3
   \<and> (0 < max (length a) (length b) \<longrightarrow>
      similarity_score a b
        = 1 - of_nat (edit_distance a b) / of_nat (max (length a) (length b)))
   \<and> 0 \<le> similarity_score a b \<and> similarity_score a b \<le> 1
   \<and> similarity_score a a = 1
   \<and> similarity_score a b = similarity_score b a
   \<and> similarity_score [] [] = 1
   \<and> similarity_score [] ''ABC'' = 0
   \<and> compare_word upper a [b] = (b, similarity_score (upper a) (upper b))
   \<and> (upper a = upper b \<longrightarrow> snd (compare_word upper a [b]) = 1)
   \<and> snd (compare_word ascii_upper ''abc'' [''ABC'']) = 1
   \<and> compare_word upper src_w [] = (src_w, 0)
   \<and> (\<forall>i < length ws.
        (\<forall>j < length ws. similarity_score (upper w) (upper (ws ! j))
             \<le> similarity_score (upper w) (upper (ws ! i)))
        \<and> (\<forall>j < i. similarity_score (upper w) (upper (ws ! j))
             < similarity_score (upper w) (upper (ws ! i)))
        \<longrightarrow> compare_word upper w ws = (ws ! i, similarity_score (upper w) (upper (ws ! i))))"
proof -
  have kitten: "levenshtein_distance ''KITTEN'' ''SITTING'' = 3"
    by code_simp
  have formula: "0 < max (length a) (length b) \<longrightarrow>
      similarity_score a b
        = 1 - of_nat (edit_distance a b) / of_nat (max (length a) (length b))"
    by (simp add: similarity_score_eq)
  have empty: "similarity_score [] [] = 1"
    by (simp add: similarity_score_eq)
  have abc: "similarity_score [] ''ABC'' = 0"
    by (simp add: similarity_score_eq)
  have same: "upper a = upper b \<longrightarrow> snd (compare_word upper a [b]) = 1"
    by (simp add: compare_word_single similarity_score_refl)
  have caseless: "snd (compare_word ascii_upper ''abc'' [''ABC'']) = 1"
    by code_simp
  show ?thesis
    using levenshtein_distance_eq [of a b] kitten formula empty abc same caseless
      similarity_score_ge0 [of a b] similarity_score_le1 [of a b]
      similarity_score_refl [of a] similarity_score_sym [of a b]
      compare_word_single [of upper a b] compare_word_Nil [of upper src_w]
      compare_word_first_best [of _ ws upper w]
    by blast
qed

theorem scorer_contract_witness:
  "similarity_score ''ab'' ''abc''
     = 1 - of_nat (edit_distance ''ab'' ''abc'') / of_nat (max (length ''ab'') (length ''abc''))
   \<and> snd (compare_word ascii_upper ''Rental'' [''RENTAL'']) = 1
   \<and> compare_word ascii_upper ''ab'' [''xb'', ''AB'', ''ab''] = (''AB'', 1)"
proof -
  let ?ws = "[''xb'', ''AB'', ''ab'']"
  note c = scorer_contract [where a = "''ab''" and b = "''abc''" and upper = ascii_upper
      and w = "''ab''" and ws = ?ws]
  note d = scorer_contract [where a = "''Rental''" and b = "''RENTAL''" and upper = ascii_upper]
  have s0: "similarity_score (ascii_upper ''ab'') (ascii_upper ''xb'') = 1 / 2" by code_simp
  have s1: "similarity_score (ascii_upper ''ab'') (ascii_upper ''AB'') = 1" by code_simp
  have s2: "similarity_score (ascii_upper ''ab'') (ascii_upper ''ab'') = 1" by code_simp
  have len: "(1::nat) < length ?ws" by simp
  have top: "\<forall>j < length ?ws. similarity_score (ascii_upper ''ab'') (ascii_upper (?ws ! j))
      \<le> similarity_score (ascii_upper ''ab'') (ascii_upper (?ws ! 1))"
    using s0 s1 s2 by (simp add: less_Suc_eq numeral_3_eq_3)
  have first: "\<forall>j < (1::nat). similarity_score (ascii_upper ''ab'') (ascii_upper (?ws ! j))
      < similarity_score (ascii_upper ''ab'') (ascii_upper (?ws ! 1))"
    using s0 s1 by simp
  have "compare_word ascii_upper ''ab'' ?ws
      = (?ws ! 1, similarity_score (ascii_upper ''ab'') (ascii_upper (?ws ! 1)))"
    using c len top first by blast
  then have tie: "compare_word ascii_upper ''ab'' ?ws = (''AB'', 1)" using s1 by simp
  have pos: "0 < max (length ''ab'') (length ''abc'')" by simp
  have up: "ascii_upper ''Rental'' = ascii_upper ''RENTAL''" by code_simp
  have same: "snd (compare_word ascii_upper ''Rental'' [''RENTAL'']) = 1"
    using d up by blast
  show ?thesis using c pos tie same by blast
qed

section \<open>Relationships\<close>

lemma validate_relationship_entities_iff:
  "validate_relationship_entities py src sol \<longleftrightarrow>
     name_similarity py (e_name (entity1 src)) (e_name (entity1 sol)) > name_match_threshold
   \<and> name_similarity py (e_name (entity2 src)) (e_name (entity2 sol)) > name_match_threshold
   \<and> name_similarity py (r_name src) (r_name sol) > name_match_threshold"
  by (simp add: validate_relationship_entities_def compare_word_single name_similarity_def)

lemma relationship_search_first_match:
  assumes "\<forall>c \<in> set before. \<not> validate_relationship_entities py src c"
    and "validate_relationship_entities py src sol"
  shows "relationship_search py src (before @ sol # rest) unmatched elog =
     (True, remove1 sol unmatched,
      elog @ (if cardinality_1to2 src \<noteq> cardinality_1to2 sol
                 \<or> cardinality_2to1 src \<noteq> cardinality_2to1 sol
              then [relationship_cardinality_error src] else [])
           @ (if is_dependent_e1 src \<noteq> is_dependent_e1 sol
                 \<or> is_dependent_e2 src \<noteq> is_dependent_e2 sol
              then [relationship_dependent_error src] else []))"
  using assms by (induction before) (simp_all add: Let_def)

lemma relationship_search_no_match:
  assumes "\<forall>c \<in> set cands. \<not> validate_relationship_entities py src c"
  shows "relationship_search py src cands unmatched elog = (False, unmatched, elog)"
  using assms by (induction cands) simp_all

text \<open>
  Claim C8. A source relationship corresponds to a solution relationship exactly when the
  names of the first entities, of the second entities and of the relationships each score
  above 0.85, role to role. The first pool member that corresponds is removed from the
  pool; one cardinality diagnostic is logged if either cardinality differs, then one
  dependency diagnostic if either dependency flag differs, and the search ends. When no
  pool member corresponds, the pool is unchanged and one not-found diagnostic is logged.
\<close>

theorem relationship_correspondence:
  "(validate_relationship_entities py src sol \<longleftrightarrow>
      name_similarity py (e_name (entity1 src)) (e_name (entity1 sol)) > name_match_threshold
    \<and> name_similarity py (e_name (entity2 src)) (e_name (entity2 sol)) > name_match_threshold
    \<and> name_similarity py (r_name src) (r_name sol) > name_match_threshold)
   \<and> ((\<forall>c \<in> set before. \<not> validate_relationship_entities py src c)
        \<and> validate_relationship_entities py src sol \<longrightarrow>
      validate_relationships_step py src (before @ sol # rest) elog =
        (before @ rest,
         elog @ (if cardinality_1to2 src \<noteq> cardinality_1to2 sol
                    \<or> cardinality_2to1 src \<noteq> cardinality_2to1 sol
                 then [relationship_cardinality_error src] else [])
              @ (if is_dependent_e1 src \<noteq> is_dependent_e1 sol
                    \<or> is_dependent_e2 src \<noteq> is_dependent_e2 sol
                 then [relationship_dependent_error src] else [])))
   \<and> ((\<forall>c \<in> set pool. \<not> validate_relationship_entities py src c) \<longrightarrow>
      validate_relationships_step py src pool elog =
        (pool, elog @ [relationship_not_found_error src]))"
proof -
  have rm: "(\<forall>c \<in> set before. \<not> validate_relationship_entities py src c)
      \<and> validate_relationship_entities py src sol \<longrightarrow>
    remove1 sol (before @ sol # rest) = before @ rest"
    by (auto simp: remove1_append)
  show ?thesis
    using validate_relationship_entities_iff [of py src sol] rm
      relationship_search_first_match [of before py src sol rest "before @ sol # rest" elog]
      relationship_search_no_match [of pool py src pool elog]
    by (simp add: validate_relationships_step_def)
qed

theorem relationship_correspondence_witness:
  "validate_relationships_step list_order (example_relationship ''works for'' True ''0,n'' ''0,1'')
     [example_relationship ''owns'' False ''1,n'' ''1,1'',
      example_relationship ''works_for'' False ''1,n'' ''1,1'',
      example_relationship ''works for'' True ''0,n'' ''0,1''] [] =
     ([example_relationship ''owns'' False ''1,n'' ''1,1'',
       example_relationship ''works for'' True ''0,n'' ''0,1''],
      [relationship_cardinality_error (example_relationship ''works for'' True ''0,n'' ''0,1''),
       relationship_dependent_error (example_relationship ''works for'' True ''0,n'' ''0,1'')])
   \<and> validate_relationships_step list_order (example_relationship ''works for'' True ''0,n'' ''0,1'')
       [example_relationship ''owns'' False ''1,n'' ''1,1''] [] =
     ([example_relationship ''owns'' False ''1,n'' ''1,1''],
      [relationship_not_found_error (example_relationship ''works for'' True ''0,n'' ''0,1'')])"
proof -
  let ?src = "example_relationship ''works for'' True ''0,n'' ''0,1''"
  let ?owns = "example_relationship ''owns'' False ''1,n'' ''1,1''"
  let ?sol = "example_relationship ''works_for'' False ''1,n'' ''1,1''"
  have no: "\<not> validate_relationship_entities list_order ?src ?owns" by code_simp
  have yes: "validate_relationship_entities list_order ?src ?sol" by code_simp
  have none: "\<forall>c \<in> set [?owns]. \<not> validate_relationship_entities list_order ?src c" using no by simp
  note c = relationship_correspondence [of list_order ?src ?sol "[?owns]" "[?src]" "[]" "[?owns]"]
  have m: "validate_relationships_step list_order ?src ([?owns] @ ?sol # [?src]) [] =
     ([?owns] @ [?src],
         [] @ (if cardinality_1to2 ?src \<noteq> cardinality_1to2 ?sol
                    \<or> cardinality_2to1 ?src \<noteq> cardinality_2to1 ?sol
                 then [relationship_cardinality_error ?src] else [])
              @ (if is_dependent_e1 ?src \<noteq> is_dependent_e1 ?sol
                    \<or> is_dependent_e2 ?src \<noteq> is_dependent_e2 ?sol
                 then [relationship_dependent_error ?src] else []))"
    using c none yes by blast
  have n: "validate_relationships_step list_order ?src [?owns] [] = ([?owns], [] @ [relationship_not_found_error ?src])"
    using c none by blast
  show ?thesis using m n by (simp add: example_relationship_def)
qed

section \<open>Identifiers: the early exit\<close>

lemma identifiers_loop_break:
  assumes "validate_identifier_attributes py src_identifier pool elog = (Returns (Some sol, True), elog')"
    and "is_primary sol \<noteq> is_primary src_identifier"
  shows "identifiers_loop py src_model src_table_id (src_identifier # rest) pool elog =
     (Returns (), remove1 sol pool,
      elog' @ [identifier_primary_error src_model src_table_id src_identifier])"
  using assms by (simp add: validate_identifier_def Let_def)

text \<open>
  Claim C10. When a source identifier is matched with a pool member whose \<open>is_primary\<close>
  differs, the identifier pass removes that member from the pool, logs the one mismatch
  diagnostic and leaves its loop: the source identifiers after it are neither matched nor
  reported, whatever they are, and every identifier still in the pool is then reported as
  unmatched.
\<close>

theorem identifier_primary_mismatch_stops:
  "validate_identifier_attributes py src_identifier pool elog = (Returns (Some sol, True), elog')
   \<and> is_primary sol \<noteq> is_primary src_identifier \<longrightarrow>
     identifiers_loop py src_model src_table_id (src_identifier # rest) pool elog =
       (Returns (), remove1 sol pool,
        elog' @ [identifier_primary_error src_model src_table_id src_identifier])
     \<and> (get_identifiers solution_model solution_table_id = Some solution_identifiers
        \<and> get_identifiers src_model src_table_id = Some (src_identifier # rest)
        \<and> identifier_set py solution_identifiers = pool \<longrightarrow>
          validate_identifiers py src_model solution_model src_table_id solution_table_id elog =
            (Returns (),
             elog' @ [identifier_primary_error src_model src_table_id src_identifier]
                   @ map (unmatched_identifier_error src_model src_table_id) (remove1 sol pool)))"
  using identifiers_loop_break [of py src_identifier pool elog sol "elog'" src_model src_table_id rest]
  by (auto simp: validate_identifiers_def)

theorem identifier_primary_mismatch_stops_witness:
  "validate_identifiers list_order
     (example_model [example_entity ''Person'' [example_attribute ''ssn'', example_attribute ''mail'']
        [example_identifier ''i1'' [''ssn''] True, example_identifier ''i2'' [''mail''] False]])
     (example_model [example_entity ''Person'' [example_attribute ''ssn'', example_attribute ''mail'']
        [example_identifier ''k1'' [''ssn''] False, example_identifier ''k2'' [''mail'', ''ssn''] False]])
     ''Person'' ''Person'' [] =
     (Returns (),
      [\<lparr>err_type = ''Identifier'', err_id = Some ''Person'', err_name = Name ''i1'',
        err_error = ''Error'',
        err_message = ''Table Person identifier i1 primary property mismatch''\<rparr>,
       \<lparr>err_type = ''Identifier'', err_id = Some ''Person'', err_name = NoName,
        err_error = ''Error'',
        err_message = ''Unmatched identifier in entity Person: k2''\<rparr>])"
proof -
  let ?attrs = "[example_attribute ''ssn'', example_attribute ''mail'']"
  let ?s1 = "example_identifier ''i1'' [''ssn''] True"
  let ?s2 = "example_identifier ''i2'' [''mail''] False"
  let ?t1 = "example_identifier ''k1'' [''ssn''] False"
  let ?t2 = "example_identifier ''k2'' [''mail'', ''ssn''] False"
  let ?src = "example_model [example_entity ''Person'' ?attrs [?s1, ?s2]]"
  let ?sol = "example_model [example_entity ''Person'' ?attrs [?t1, ?t2]]"
  have via: "validate_identifier_attributes list_order ?s1 [?t1, ?t2] [] = (Returns (Some ?t1, True), [])"
    by code_simp
  have prim: "is_primary ?t1 \<noteq> is_primary ?s1"
    by (simp add: example_identifier_def)
  have g1: "get_identifiers ?sol ''Person'' = Some [?t1, ?t2]"
    by (simp add: get_identifiers_def example_model_def example_entity_def)
  have g2: "get_identifiers ?src ''Person'' = Some (?s1 # [?s2])"
    by (simp add: get_identifiers_def example_model_def example_entity_def)
  have py: "identifier_set list_order [?t1, ?t2] = [?t1, ?t2]"
    by (simp add: list_order_def)
  have "validate_identifiers list_order ?src ?sol ''Person'' ''Person'' [] =
     (Returns (), [] @ [identifier_primary_error ?src ''Person'' ?s1]
         @ map (unmatched_identifier_error ?src ''Person'') (remove1 ?t1 [?t1, ?t2]))"
    using identifier_primary_mismatch_stops [of list_order ?s1 "[?t1, ?t2]" "[]" ?t1 "[]" ?src
        "''Person''" "[?s2]" ?sol "''Person''" "[?t1, ?t2]"] via prim g1 g2 py
    by blast
  moreover have "identifier_primary_error ?src ''Person'' ?s1 =
     \<lparr>err_type = ''Identifier'', err_id = Some ''Person'', err_name = Name ''i1'',
        err_error = ''Error'',
        err_message = ''Table Person identifier i1 primary property mismatch''\<rparr>"
    by code_simp
  moreover have "map (unmatched_identifier_error ?src ''Person'') (remove1 ?t1 [?t1, ?t2]) =
      [\<lparr>err_type = ''Identifier'', err_id = Some ''Person'', err_name = NoName,
        err_error = ''Error'',
        err_message = ''Unmatched identifier in entity Person: k2''\<rparr>]"
    by code_simp
  ultimately show ?thesis by simp
qed

section \<open>Inheritances\<close>

lemma threshold_pos: "0 < name_match_threshold"
  by (simp add: name_match_threshold_def)

lemma best_child_fold:
  "t \<le> snd (fold (best_child_update py child) scs best)
     \<longleftrightarrow> t \<le> snd best \<or> (\<exists>sc \<in> set scs. t \<le> name_similarity py (e_name child) (e_name sc))"
proof (induction scs arbitrary: best)
  case Nil
  then show ?case by simp
next
  case (Cons sc scs)
  have "snd (best_child_update py child sc best)
      = max (snd best) (name_similarity py (e_name child) (e_name sc))"
    by (cases best) (simp add: best_child_update_def compare_word_single name_similarity_def max_def)
  then show ?case
    by (auto simp: Cons.IH le_max_iff_disj)
qed

lemma best_child_ge:
  "name_match_threshold \<le> snd (best_child py child scs) \<longleftrightarrow>
     (\<exists>sc \<in> set scs. name_match_threshold \<le> name_similarity py (e_name child) (e_name sc))"
  unfolding best_child_def best_child_fold
  by (simp add: name_match_threshold_def)

lemma children_check:
  "list_ex (\<lambda>x. snd x < name_match_threshold)
     (map (\<lambda>child. best_child py child (children sol)) (children src))
   \<longleftrightarrow> \<not> children_qualify py src sol"
  by (auto simp: list_ex_iff children_qualify_def best_child_ge [symmetric] not_le)

lemma validate_inheritance_eq:
  "validate_inheritance py src sol elog =
     (if \<not> children_qualify py src sol then
        ((Some (inheritance_error src '' children mismatch''), False), elog)
      else if \<not> parent_qualifies py src sol then
        ((Some (inheritance_error src '' parent mismatch''), False), elog)
      else if mutually_exclusive src \<noteq> mutually_exclusive sol then
        ((None, True), elog @ [inheritance_error src '' mutually exclusive property mismatch''])
      else if complete_inh src \<noteq> complete_inh sol then
        ((None, True), elog @ [inheritance_error src '' complete property mismatch''])
      else ((None, True), elog))"
  unfolding validate_inheritance_def Let_def children_check
  by (simp add: compare_word_single parent_qualifies_def name_similarity_def not_le)

lemma inheritance_search_none:
  assumes "\<forall>c \<in> set cands. \<not> (children_qualify py src c \<and> parent_qualifies py src c)"
  shows "inheritance_search py src cands unmatched err_info elog =
     (False, unmatched,
      (if cands = [] then err_info else Some (Some (failure_info py src (last cands)))), elog)"
  using assms
proof (induction cands arbitrary: err_info)
  case Nil
  then show ?case by simp
next
  case (Cons c cands)
  then show ?case
    by (auto simp: validate_inheritance_eq failure_info_def)
qed

lemma inheritance_search_first:
  assumes "\<forall>c \<in> set before. \<not> (children_qualify py src c \<and> parent_qualifies py src c)"
    and "children_qualify py src sol" "parent_qualifies py src sol"
  shows "inheritance_search py src (before @ sol # rest) unmatched err_info elog =
     (True, remove1 sol unmatched, Some None, snd (validate_inheritance py src sol elog))"
  using assms
proof (induction before arbitrary: err_info)
  case Nil
  then show ?case by (simp add: validate_inheritance_eq)
next
  case (Cons c before)
  then show ?case
    by (auto simp: validate_inheritance_eq)
qed

text \<open>
  Claim C7, amended. A solution inheritance qualifies for a source inheritance exactly when
  every source child has some solution child scoring at least 0.85 and the parents score
  at least 0.85 (a score of exactly 0.85 qualifies). The children are checked before the
  parent: a child without counterpart gives the reason "children mismatch" whatever the
  parents are. On a qualifying candidate \<open>mutually_exclusive\<close> is compared first and a
  difference logs its diagnostic; when it agrees, \<open>complete\<close> is compared and a difference
  logs its diagnostic. The first qualifying pool member is removed from the pool. When the
  pool is not empty and no member qualifies, the diagnostic logged is the reason of the last
  member of the pool.
\<close>

theorem inheritance_correspondence:
  "(snd (fst (validate_inheritance py src sol elog)) \<longleftrightarrow>
      children_qualify py src sol \<and> parent_qualifies py src sol)
   \<and> (\<not> children_qualify py src sol \<longrightarrow>
        validate_inheritance py src sol elog =
          ((Some (inheritance_error src '' children mismatch''), False), elog))
   \<and> (children_qualify py src sol \<and> \<not> parent_qualifies py src sol \<longrightarrow>
        validate_inheritance py src sol elog =
          ((Some (inheritance_error src '' parent mismatch''), False), elog))
   \<and> (children_qualify py src sol \<and> parent_qualifies py src sol \<longrightarrow>
        (mutually_exclusive src \<noteq> mutually_exclusive sol \<longrightarrow>
           (\<exists>more. snd (validate_inheritance py src sol elog) =
              elog @ inheritance_error src '' mutually exclusive property mismatch'' # more))
        \<and> (mutually_exclusive src = mutually_exclusive sol \<and> complete_inh src \<noteq> complete_inh sol \<longrightarrow>
           snd (validate_inheritance py src sol elog) =
              elog @ [inheritance_error src '' complete property mismatch''])
        \<and> (mutually_exclusive src = mutually_exclusive sol \<and> complete_inh src = complete_inh sol \<longrightarrow>
           snd (validate_inheritance py src sol elog) = elog))
   \<and> ((\<forall>c \<in> set before. \<not> (children_qualify py src c \<and> parent_qualifies py src c))
        \<and> children_qualify py src sol \<and> parent_qualifies py src sol \<longrightarrow>
        validate_inheritances_step py src (before @ sol # rest) err_info elog =
          (Returns (), before @ rest, Some None, snd (validate_inheritance py src sol elog)))
   \<and> (pool \<noteq> [] \<and> (\<forall>c \<in> set pool. \<not> (children_qualify py src c \<and> parent_qualifies py src c)) \<longrightarrow>
        validate_inheritances_step py src pool err_info elog =
          (Returns (), pool, Some (Some (failure_info py src (last pool))),
           elog @ [failure_info py src (last pool)])
        \<and> fst (fst (validate_inheritance py src (last pool) elog))
            = Some (failure_info py src (last pool)))"
proof -
  have rm: "(\<forall>c \<in> set before. \<not> (children_qualify py src c \<and> parent_qualifies py src c))
      \<and> children_qualify py src sol \<and> parent_qualifies py src sol \<longrightarrow>
    remove1 sol (before @ sol # rest) = before @ rest"
    by (auto simp: remove1_append)
  have first: "(\<forall>c \<in> set before. \<not> (children_qualify py src c \<and> parent_qualifies py src c))
        \<and> children_qualify py src sol \<and> parent_qualifies py src sol \<longrightarrow>
        validate_inheritances_step py src (before @ sol # rest) err_info elog =
          (Returns (), before @ rest, Some None, snd (validate_inheritance py src sol elog))"
    using rm inheritance_search_first [of before py src sol rest "before @ sol # rest" err_info elog]
    by (auto simp: validate_inheritances_step_def)
  have none: "pool \<noteq> [] \<and> (\<forall>c \<in> set pool. \<not> (children_qualify py src c \<and> parent_qualifies py src c)) \<longrightarrow>
        validate_inheritances_step py src pool err_info elog =
          (Returns (), pool, Some (Some (failure_info py src (last pool))),
           elog @ [failure_info py src (last pool)])
        \<and> fst (fst (validate_inheritance py src (last pool) elog))
            = Some (failure_info py src (last pool))"
    using inheritance_search_none [of pool py src pool err_info elog]
    by (auto simp: validate_inheritances_step_def validate_inheritance_eq failure_info_def)
  show ?thesis
    using first none by (simp add: validate_inheritance_eq)
qed


theorem inheritance_correspondence_witness:
  "validate_inheritances_step list_order
     (example_inheritance ''h'' ''InternationalStudent'' [''Bachelor'', ''Master''] True True)
     [example_inheritance ''k1'' ''Teacher'' [''Bachelor'', ''Master''] True True,
      example_inheritance ''k2'' ''InternationalStudies'' [''Masters'', ''Bachelor'', ''Doctor''] True False]
     None [] =
     (Returns (),
      [example_inheritance ''k1'' ''Teacher'' [''Bachelor'', ''Master''] True True],
      Some None,
      [inheritance_error
         (example_inheritance ''h'' ''InternationalStudent'' [''Bachelor'', ''Master''] True True)
         '' complete property mismatch''])
   \<and> validate_inheritances_step list_order
     (example_inheritance ''h'' ''InternationalStudent'' [''Bachelor'', ''Master''] True True)
     [example_inheritance ''k3'' ''InternationalStudent'' [''Bachelor''] True True,
      example_inheritance ''k1'' ''Teacher'' [''Bachelor'', ''Master''] True True]
     None [] =
     (Returns (),
      [example_inheritance ''k3'' ''InternationalStudent'' [''Bachelor''] True True,
       example_inheritance ''k1'' ''Teacher'' [''Bachelor'', ''Master''] True True],
      Some (Some (inheritance_error
         (example_inheritance ''h'' ''InternationalStudent'' [''Bachelor'', ''Master''] True True)
         '' parent mismatch'')),
      [inheritance_error
         (example_inheritance ''h'' ''InternationalStudent'' [''Bachelor'', ''Master''] True True)
         '' parent mismatch''])"
proof -
  let ?src = "example_inheritance ''h'' ''InternationalStudent'' [''Bachelor'', ''Master''] True True"
  let ?k1 = "example_inheritance ''k1'' ''Teacher'' [''Bachelor'', ''Master''] True True"
  let ?k2 = "example_inheritance ''k2'' ''InternationalStudies''
               [''Masters'', ''Bachelor'', ''Doctor''] True False"
  let ?k3 = "example_inheritance ''k3'' ''InternationalStudent'' [''Bachelor''] True True"
  have c1: "children_qualify list_order ?src ?k1" by code_simp
  have p1: "\<not> parent_qualifies list_order ?src ?k1" by code_simp
  have c2: "children_qualify list_order ?src ?k2" by code_simp
  have p2: "parent_qualifies list_order ?src ?k2" by code_simp
  have c3: "\<not> children_qualify list_order ?src ?k3" by code_simp
  have flags: "mutually_exclusive ?src = mutually_exclusive ?k2 \<and> complete_inh ?src \<noteq> complete_inh ?k2"
    by (simp add: example_inheritance_def)
  have before: "\<forall>c \<in> set [?k1]. \<not> (children_qualify list_order ?src c \<and> parent_qualifies list_order ?src c)"
    using p1 by simp
  have none: "[?k3, ?k1] \<noteq> [] \<and>
      (\<forall>c \<in> set [?k3, ?k1]. \<not> (children_qualify list_order ?src c \<and> parent_qualifies list_order ?src c))"
    using p1 c3 by simp
  note t = inheritance_correspondence [of list_order ?src ?k2 "[]" "[?k1]" "[]" None "[?k3, ?k1]"]
  have log: "snd (validate_inheritance list_order ?src ?k2 []) =
      [] @ [inheritance_error ?src '' complete property mismatch'']"
    using t c2 p2 flags by blast
  have step1: "validate_inheritances_step list_order ?src ([?k1] @ ?k2 # []) None [] =
      (Returns (), [?k1] @ [], Some None, snd (validate_inheritance list_order ?src ?k2 []))"
    using t before c2 p2 by blast
  have step2: "validate_inheritances_step list_order ?src [?k3, ?k1] None [] =
      (Returns (), [?k3, ?k1], Some (Some (failure_info list_order ?src (last [?k3, ?k1]))),
       [] @ [failure_info list_order ?src (last [?k3, ?k1])])"
    using t none by blast
  have fi: "failure_info list_order ?src (last [?k3, ?k1]) = inheritance_error ?src '' parent mismatch''"
    using c1 p1 by (simp add: failure_info_def)
  show ?thesis using step1 step2 log fi by simp
qed

text \<open>
  Claim C7 as stated requires scores above 0.85. The parents below score exactly 0.85
  (three edits in twenty characters), and the candidate qualifies.
\<close>

theorem inheritance_threshold_counterexample:
  "\<not> name_similarity list_order ''InternationalStudent'' ''InternationalStudies'' > name_match_threshold
   \<and> validate_inheritance list_order
       (example_inheritance ''h'' ''InternationalStudent'' [''Bachelor''] True True)
       (example_inheritance ''k'' ''InternationalStudies'' [''Bachelor''] True True) []
     = ((None, True), [])"
  by code_simp

text \<open>
  When both flags differ, \<open>validate_inheritance\<close> returns after the first diagnostic.
\<close>

lemma inheritance_both_flags_differ:
  "validate_inheritance list_order
       (example_inheritance ''h'' ''Student'' [''Bachelor''] True True)
       (example_inheritance ''k'' ''Student'' [''Bachelor''] False False) []
     = ((None, True),
        [inheritance_error (example_inheritance ''h'' ''Student'' [''Bachelor''] True True)
           '' mutually exclusive property mismatch''])"
  by code_simp

section \<open>Identifiers: the test on the whole pool\<close>

lemma best_score_ge:
  "name_match_threshold \<le> snd (compare_word (str_upper py) w (map a_name bs)) \<longleftrightarrow>
     (\<exists>b \<in> set bs. name_match_threshold \<le> name_similarity py w (a_name b))"
  using compare_word_score_ge [OF threshold_pos, of "str_upper py" w "map a_name bs"]
  by (simp add: name_similarity_def)

lemma min_list_less:
  fixes t :: rat
  assumes "scores \<noteq> []"
  shows "min_list scores < t \<longleftrightarrow> (\<exists>s \<in> set scores. s < t)"
  using assms by (simp add: min_list_Min Min_less_iff)

lemma match_found_iff:
  "match_found py src c \<longleftrightarrow>
     (\<forall>a \<in> set (identifier_attributes src). \<exists>b \<in> set (identifier_attributes c).
        name_match_threshold \<le> name_similarity py (a_name a) (a_name b))"
  by (simp add: match_found_def Let_def list_all_iff best_score_ge)

lemma identifier_attributes_loop_result:
  assumes "pool \<noteq> []"
  shows "identifier_attributes_loop py src attrs
           (map (\<lambda>ident. map a_name (identifier_attributes ident)) pool) elog =
     (if \<forall>a \<in> set attrs. \<forall>c \<in> set pool. \<exists>b \<in> set (identifier_attributes c).
            name_match_threshold \<le> name_similarity py (a_name a) (a_name b)
      then (Returns True, elog)
      else (Returns False,
            elog @ [identifier_attributes_error src
                      (the (find (\<lambda>a. \<not> (\<forall>c \<in> set pool. \<exists>b \<in> set (identifier_attributes c).
                         name_match_threshold \<le> name_similarity py (a_name a) (a_name b))) attrs))]))"
proof (induction attrs)
  case Nil
  then show ?case by simp
next
  case (Cons a attrs)
  let ?scores = "map (\<lambda>sol_attributes. snd (compare_word (str_upper py) (a_name a) sol_attributes))
                   (map (\<lambda>ident. map a_name (identifier_attributes ident)) pool)"
  have ne: "?scores \<noteq> []" using assms by simp
  have low: "min_list ?scores < name_match_threshold \<longleftrightarrow>
      \<not> (\<forall>c \<in> set pool. \<exists>b \<in> set (identifier_attributes c).
            name_match_threshold \<le> name_similarity py (a_name a) (a_name b))"
    unfolding min_list_less [OF ne]
    by (auto simp: best_score_ge [symmetric] not_le)
  show ?case
    unfolding identifier_attributes_loop.simps Let_def
    using ne low Cons.IH by auto
qed

lemma validate_identifier_attributes_result:
  assumes "pool \<noteq> []"
  shows "validate_identifier_attributes py src pool elog =
     (if identifier_gate py src pool then (Returns (Some (hd pool), True), elog)
      else (Returns (None, False),
            elog @ [identifier_attributes_error src
                      (the (find (\<lambda>a. \<not> (\<forall>c \<in> set pool. \<exists>b \<in> set (identifier_attributes c).
                         name_match_threshold \<le> name_similarity py (a_name a) (a_name b)))
                        (identifier_attributes src)))]))"
proof (cases "identifier_gate py src pool")
  case True
  obtain c cs where pool: "pool = c # cs" using assms by (cases pool) auto
  have "match_found py src c"
    using True unfolding match_found_iff identifier_gate_def pool by simp
  then have "find (match_found py src) pool = Some (hd pool)"
    by (simp add: pool)
  then show ?thesis
    using True identifier_attributes_loop_result [OF assms, of py src "identifier_attributes src" elog]
    by (simp add: validate_identifier_attributes_def identifier_gate_def)
next
  case False
  then have ng: "\<not> (\<forall>a \<in> set (identifier_attributes src). \<forall>c \<in> set pool.
        \<exists>b \<in> set (identifier_attributes c).
          name_match_threshold \<le> name_similarity py (a_name a) (a_name b))"
    by (simp add: identifier_gate_def)
  have loop: "identifier_attributes_loop py src (identifier_attributes src)
           (map (\<lambda>ident. map a_name (identifier_attributes ident)) pool) elog =
      (Returns False,
            elog @ [identifier_attributes_error src
                      (the (find (\<lambda>a. \<not> (\<forall>c \<in> set pool. \<exists>b \<in> set (identifier_attributes c).
                         name_match_threshold \<le> name_similarity py (a_name a) (a_name b)))
                        (identifier_attributes src)))])"
    by (simp only: identifier_attributes_loop_result [OF assms] if_not_P [OF ng])
  show ?thesis
    by (simp only: validate_identifier_attributes_def Let_def loop if_not_P [OF False]
          prod.case outcome.case not_False_eq_True if_True)
qed

text \<open>
  Claim C6 fails on the code. The second loop of \<open>validate_identifier_attributes\<close> looks for
  the first identifier of the pool that has a member for every member attribute of the
  source identifier, as the claim says; but the first loop has already given up, with a
  diagnostic, if any identifier of the pool lacks one (lemma
  \<open>validate_identifier_attributes_result\<close>). Below, the first pool identifier is a full
  match for the source identifier and is not found, because the second pool identifier is
  over another attribute; and an entity with the two identifiers \<open>i1\<close> over \<open>ssn\<close> and
  \<open>i2\<close> over \<open>mail\<close>, validated against itself, gets four diagnostics.
\<close>

theorem identifier_full_match_rejected:
  "match_found list_order (example_identifier ''i1'' [''ssn''] True)
     (example_identifier ''k1'' [''ssn''] True)
   \<and> validate_identifier_attributes list_order (example_identifier ''i1'' [''ssn''] True)
       [example_identifier ''k1'' [''ssn''] True, example_identifier ''k2'' [''mail''] False] []
     = (Returns (None, False),
        [identifier_attributes_error (example_identifier ''i1'' [''ssn''] True)
           (example_attribute ''ssn'')])
   \<and> validate list_order
       (example_model [example_entity ''Person''
          [example_attribute ''ssn'', example_attribute ''mail'']
          [example_identifier ''i1'' [''ssn''] True, example_identifier ''i2'' [''mail''] False]])
       (example_model [example_entity ''Person''
          [example_attribute ''ssn'', example_attribute ''mail'']
          [example_identifier ''i1'' [''ssn''] True, example_identifier ''i2'' [''mail''] False]])
       []
     = (Returns (),
        [identifier_attributes_error (example_identifier ''i1'' [''ssn''] True)
           (example_attribute ''ssn''),
         identifier_attributes_error (example_identifier ''i2'' [''mail''] False)
           (example_attribute ''mail''),
         \<lparr>err_type = ''Identifier'', err_id = Some ''Person'', err_name = NoName,
          err_error = ''Error'', err_message = ''Unmatched identifier in entity Person: i1''\<rparr>,
         \<lparr>err_type = ''Identifier'', err_id = Some ''Person'', err_name = NoName,
          err_error = ''Error'', err_message = ''Unmatched identifier in entity Person: i2''\<rparr>])"
  by code_simp

section \<open>The pools and the order of the diagnostics\<close>


















section \<open>Where the code departs from the specification\<close>

text \<open>
  \<open>validate_association\<close> returns \<open>True\<close> only through its first \<open>return\<close>, which needs both
  attribute lists to be empty; past it the function either returns \<open>False\<close> or falls off
  its end.
\<close>

lemma validate_association_truthy:
  "truthy (fst (validate_association py src sol elog)) \<longleftrightarrow>
     as_attributes src = [] \<and> as_attributes sol = []"
  by (auto simp: validate_association_def truthy_def Let_def)

lemma validate_association_link_iff:
  "validate_association_link py src_link solution_link \<longleftrightarrow>
     name_similarity py (as_name (l_association src_link)) (as_name (l_association solution_link))
       > name_match_threshold
   \<and> name_similarity py (e_name (l_entity src_link)) (e_name (l_entity solution_link))
       > name_match_threshold"
  by (simp add: validate_association_link_def compare_word_single name_similarity_def)

text \<open>
  Claim C1 fails on the code. A model whose one association has an attribute, validated
  against itself, gets two diagnostics from the association pass: the association is
  reported as not found, and its copy as unmatched.
\<close>

theorem self_validation_reports_association:
  "validate list_order
     ((example_model [])\<lparr>associations := [example_association ''Rental'' [''date'']]\<rparr>)
     ((example_model [])\<lparr>associations := [example_association ''Rental'' [''date'']]\<rparr>) [] =
     (Returns (),
      [association_not_found_error (example_association ''Rental'' [''date'']),
       unmatched_association_error (example_association ''Rental'' [''date''])])"
  by code_simp

text \<open>
  Claim C2 fails on the code. A source inheritance against a solution without inheritances
  makes \<open>validate_inheritances\<close> read \<open>err_info\<close> before it is bound; a source identifier
  with a member attribute against a matched solution entity without identifiers makes
  \<open>validate_identifier_attributes\<close> take \<open>min\<close> of an empty list. Both runs end in an
  exception.
\<close>

theorem validate_raises_on_empty_pool:
  "validate list_order
     ((example_model [example_entity ''Person'' [] [],
                      (example_entity ''Student'' [] [])\<lparr>is_child := True\<rparr>])
        \<lparr>inheritances := [example_inheritance ''h'' ''Person'' [''Student''] True True]\<rparr>)
     (example_model [example_entity ''Person'' [] [], example_entity ''Student'' [] []]) [] =
     (Raises UnboundLocalError,
      [\<lparr>err_type = ''Entity'', err_id = Some ''Student'', err_name = Name ''Student'',
        err_error = ''Error'', err_message = ''Entity child property mismatch''\<rparr>])
   \<and> validate list_order
     (example_model [example_entity ''Person'' [example_attribute ''ssn'']
                       [example_identifier ''i1'' [''ssn''] True]])
     (example_model [example_entity ''Person'' [example_attribute ''ssn''] []]) [] =
     (Raises ValueError, [])"
  by code_simp

text \<open>
  Claim C4 fails on the code. Two associations of the same name, each with the one
  attribute \<open>date\<close>: \<open>validate_association\<close> gives \<open>None\<close>, the source association is
  reported as not found and the solution association as unmatched.
\<close>

theorem association_with_attributes_never_matched:
  "validate_association list_order (example_association ''Rental'' [''date''])
     (example_association ''Rental'' [''date'']) [] = (None, [])
   \<and> validate_associations list_order
     ((example_model [])\<lparr>associations := [example_association ''Rental'' [''date'']]\<rparr>)
     ((example_model [])\<lparr>associations := [example_association ''Rental'' [''date'']]\<rparr>) [] =
     [association_not_found_error (example_association ''Rental'' [''date'']),
      unmatched_association_error (example_association ''Rental'' [''date''])]"
  by code_simp

text \<open>
  Claim C5 fails on the code. A source link whose counterpart has another cardinality: the
  counterpart is removed from the set, the diagnostic is logged, and the loop over the set
  goes on instead of ending; the pass ends in \<open>RuntimeError\<close>.
\<close>

theorem link_cardinality_mismatch_raises:
  "validate_association_links list_order
     ((example_model [example_entity ''Person'' [] [], example_entity ''Firm'' [] []])
        \<lparr>associations := [example_association ''Rental'' []],
         association_links := [example_link ''l1'' ''Rental'' ''Person'' ''0,n'']\<rparr>)
     ((example_model [example_entity ''Person'' [] [], example_entity ''Firm'' [] []])
        \<lparr>associations := [example_association ''Rental'' []],
         association_links := [example_link ''k1'' ''Rental'' ''Person'' ''1,n'',
                               example_link ''k2'' ''Rental'' ''Firm'' ''1,n'']\<rparr>) [] =
     (Raises RuntimeError,
      [link_cardinality_error (example_link ''l1'' ''Rental'' ''Person'' ''0,n'')])"
  by code_simp

end
